theory Spec2Isabelle
  imports Complex_Main "HOL-Library.Word" "HOL-Library.Log_Nat"
begin

unbundle bit_operations_syntax

section \<open>The MPU9250 / AK8963 driver of \<^verbatim>\<open>vitis/mpu9250/mpu9250.c\<close>\<close>

text \<open>
  The driver is a bare-metal C program: \<^verbatim>\<open>main\<close> calls \<^verbatim>\<open>init_mpu9250\<close> once and then
  runs \<^verbatim>\<open>read_mpu9250\<close>, \<^verbatim>\<open>read_magnetometer\<close> and a one-second sleep forever. Everything it
  does beyond arithmetic is a call into the Xilinx board support package
  (\<^verbatim>\<open>XIic_Initialize\<close>, \<^verbatim>\<open>XIic_Start\<close>, \<^verbatim>\<open>XIic_Send\<close>, \<^verbatim>\<open>XIic_Recv\<close>, \<^verbatim>\<open>usleep\<close>, \<^verbatim>\<open>print\<close>,
  \<^verbatim>\<open>xil_printf\<close>, \<^verbatim>\<open>printf\<close>). The embedding threads an explicit state through the C
  functions; each call into the support package appends one event to a trace, and what the
  hardware answers is read from a \<open>world\<close> that the theorems quantify over.
\<close>

subsection \<open>Data\<close>

type_synonym u8 = "8 word"
type_synonym i16 = "16 word"  \<comment> \<open>\<^verbatim>\<open>int16_t\<close>: the bit pattern, read as a number by \<open>sint\<close>\<close>
type_synonym c_int = "32 word"  \<comment> \<open>the 32-bit \<^verbatim>\<open>int\<close> of the promoted byte arithmetic\<close>
type_synonym f32 = rat  \<comment> \<open>a finite binary32 value, held as the rational it denotes\<close>

definition MPU_ADDR :: u8 where "MPU_ADDR = 0x68"
definition MAG_ADDR :: u8 where "MAG_ADDR = 0x0C"

text \<open>
  Modelled from the spec: the status with which the bus primitive's \<open>initialize\<close> reports
  success. The driver compares the status of \<^verbatim>\<open>XIic_Initialize\<close> with \<^verbatim>\<open>XST_SUCCESS\<close>,
  a constant of the support package's header \<^verbatim>\<open>xstatus.h\<close>, which is not part of the
  repository; there it is 0. The spec tells a success status from all others and nothing
  more, and no theorem below needs more than that.
\<close>

definition XST_SUCCESS :: int where "XST_SUCCESS = 0"

text \<open>
  The two transfer options the driver passes, constants of the support package's
  \<^verbatim>\<open>xiic_l.h\<close>: end the transfer with a stop condition, or keep the bus for a repeated
  start.
\<close>

datatype iic_option = XIIC_STOP | XIIC_REPEATED_START

definition CR :: char where "CR = CHR 0x0D"
definition LF :: char where "LF = CHR 0x0A"

text \<open>
  One event per call that leaves the program. The base address
  \<^verbatim>\<open>XPAR_AXI_IIC_MPU9250_BASEADDR\<close> and the device id are the same constants at every call
  and are left out. \<open>Printf_mpu\<close> and \<open>Printf_mag\<close> carry the \<^verbatim>\<open>float\<close> arguments of the two
  \<^verbatim>\<open>printf\<close> calls, \<open>Xil_printf_who\<close> and \<open>Xil_printf_asa\<close> the byte arguments of the two
  \<^verbatim>\<open>xil_printf\<close> calls.
\<close>

datatype event =
    Init_platform
  | Print string
  | Iic_initialize
  | Iic_start
  | Iic_send u8 "u8 list" nat iic_option
  | Iic_recv u8 nat iic_option
  | Usleep nat
  | Xil_printf_who u8
  | Xil_printf_asa u8 u8 u8
  | Printf_mpu f32 f32 f32 f32 f32 f32 f32
  | Printf_mag f32 f32 f32

text \<open>
  The world fixes what the hardware answers: the status of \<^verbatim>\<open>XIic_Initialize\<close>; for the
  \<open>k\<close>-th bus primitive of the run (counting sends and receives together from 0) the value
  a send returns, or the value a receive returns together with the bytes it stores; and the
  bytes found in a local array that C leaves uninitialised (\<^verbatim>\<open>st1\<close>, \<^verbatim>\<open>data\<close>), indexed by the
  number of bus primitives done when the array comes into scope and by position.
\<close>

record world =
  init_status :: int
  send_ret :: "nat \<Rightarrow> int"
  recv_ret :: "nat \<Rightarrow> int \<times> u8 list"
  stack_junk :: "nat \<Rightarrow> nat \<Rightarrow> u8"

text \<open>
  The program state: the global \<^verbatim>\<open>ASA[3]\<close>, the trace so far (oldest event first) and the
  number of bus primitives done.
\<close>

record state =
  ASA :: "u8 list"
  trace :: "event list"
  calls :: nat

definition boot :: state where
  "boot = \<lparr>ASA = [0, 0, 0], trace = [], calls = 0\<rparr>"

definition emit :: "event \<Rightarrow> state \<Rightarrow> state" where
  "emit e s = s\<lparr>trace := trace s @ [e]\<rparr>"

definition uninit :: "world \<Rightarrow> state \<Rightarrow> nat \<Rightarrow> u8 list" where
  "uninit w s n = map (stack_junk w (calls s)) [0..<n]"

text \<open>Storing received bytes at the start of a buffer; the rest of the buffer stays.\<close>

definition overwrite :: "u8 list \<Rightarrow> u8 list \<Rightarrow> u8 list" where
  "overwrite buf bytes = take (length buf) bytes @ drop (length bytes) buf"

subsection \<open>The bus primitives of the support package\<close>

text \<open>
  Modelled from the spec: the downward boundary of the driver, whose code belongs to the
  support package and not to the repository. \<open>send(bus, device, buffer, length, option)\<close>
  gives the bytes sent or an error code, \<open>receive(bus, device, buffer, length, option)\<close>
  the bytes received or an error code, and a receive stores at most \<open>length\<close> bytes at
  the start of the buffer. What is returned and what is stored is the world's choice; the
  call is recorded in the trace. \<^verbatim>\<open>usleep\<close> and \<^verbatim>\<open>print\<close> are recorded and do nothing else.
\<close>

definition XIic_Send :: "world \<Rightarrow> u8 \<Rightarrow> u8 list \<Rightarrow> nat \<Rightarrow> iic_option \<Rightarrow> state \<Rightarrow> int \<times> state" where
  "XIic_Send w dev buf n opt s =
     (send_ret w (calls s), (emit (Iic_send dev buf n opt) s)\<lparr>calls := Suc (calls s)\<rparr>)"

definition XIic_Recv ::
  "world \<Rightarrow> u8 \<Rightarrow> u8 list \<Rightarrow> nat \<Rightarrow> iic_option \<Rightarrow> state \<Rightarrow> (int \<times> u8 list) \<times> state" where
  "XIic_Recv w dev buf n opt s =
     ((fst (recv_ret w (calls s)), overwrite buf (take n (snd (recv_ret w (calls s))))),
      (emit (Iic_recv dev n opt) s)\<lparr>calls := Suc (calls s)\<rparr>)"

definition usleep :: "nat \<Rightarrow> state \<Rightarrow> state" where
  "usleep us s = emit (Usleep us) s"

definition print :: "string \<Rightarrow> state \<Rightarrow> state" where
  "print msg s = emit (Print msg) s"

subsection \<open>The two register helpers\<close>

definition IIC_WriteReg :: "world \<Rightarrow> u8 \<Rightarrow> u8 \<Rightarrow> u8 \<Rightarrow> state \<Rightarrow> int \<times> state" where
  "IIC_WriteReg w DevAddr RegAddr Data s = XIic_Send w DevAddr [RegAddr, Data] 2 XIIC_STOP s"

definition IIC_ReadReg ::
  "world \<Rightarrow> u8 \<Rightarrow> u8 \<Rightarrow> u8 list \<Rightarrow> nat \<Rightarrow> state \<Rightarrow> (int \<times> u8 list) \<times> state" where
  "IIC_ReadReg w DevAddr RegAddr buf len s =
     (let (status, s1) = XIic_Send w DevAddr [RegAddr] 1 XIIC_REPEATED_START s
      in if status \<noteq> 1 then ((status, buf), s1)
         else XIic_Recv w DevAddr buf len XIIC_STOP s1)"

subsection \<open>Single-precision arithmetic\<close>

text \<open>
  The \<^verbatim>\<open>float\<close> of the target (the hard-float Cortex-A9 of the Zynq) is IEEE 754
  binary32: 24 significant bits, exponents from -126 to 127, and every operation returns
  its exact result rounded to the nearest representable value, ties to the even
  significand, with no wider intermediate format. A finite value is held as the rational
  it denotes, so an operation is the exact operation followed by \<open>f32_round\<close>. Infinities,
  NaN and the sign of zero are not represented: the driver divides by nonzero constants
  only, and its operands come from 8-bit and 16-bit integers, far from the overflow
  threshold.
\<close>

text \<open>Rounding a rational to the nearest integer, ties to even.\<close>

definition rne :: "rat \<Rightarrow> int" where
  "rne x = (let n = \<lfloor>x\<rfloor>; f = x - of_int n
            in if f < 1 / 2 then n else if 1 / 2 < f then n + 1
               else if even n then n else n + 1)"

text \<open>The binary exponent \<open>\<lfloor>log\<^sub>2 x\<rfloor>\<close> of a positive rational.\<close>

definition ilog2 :: "rat \<Rightarrow> int" where
  "ilog2 x = (let d = bitlen (fst (quotient_of x)) - bitlen (snd (quotient_of x))
              in if 2 powi d \<le> x then d else d - 1)"

definition f32_round :: "rat \<Rightarrow> f32" where
  "f32_round x =
     (if x = 0 then 0
      else let e = max (ilog2 \<bar>x\<bar>) (- 126); ulp = 2 powi (e - 23)
           in of_int (rne (x / ulp)) * ulp)"

definition f32_of_int :: "int \<Rightarrow> f32" where
  "f32_of_int i = f32_round (of_int i)"

definition f32_add :: "f32 \<Rightarrow> f32 \<Rightarrow> f32" where
  "f32_add a b = f32_round (a + b)"

definition f32_mul :: "f32 \<Rightarrow> f32 \<Rightarrow> f32" where
  "f32_mul a b = f32_round (a * b)"

definition f32_div :: "f32 \<Rightarrow> f32 \<Rightarrow> f32" where
  "f32_div a b = f32_round (a / b)"

text \<open>A decimal literal with suffix \<^verbatim>\<open>f\<close> is the binary32 value nearest to the decimal.\<close>

definition ACCEL_SENS :: f32 where "ACCEL_SENS = f32_round 4096"
definition GYRO_SENS :: f32 where "GYRO_SENS = f32_round (164 / 10)"
definition lit_340 :: f32 where "lit_340 = f32_round 340"
definition lit_36_53 :: f32 where "lit_36_53 = f32_round (3653 / 100)"
definition lit_256 :: f32 where "lit_256 = f32_round 256"
definition lit_1 :: f32 where "lit_1 = f32_round 1"
definition lit_0_15 :: f32 where "lit_0_15 = f32_round (15 / 100)"

text \<open>
  What \<^verbatim>\<open>printf\<close> shows for a conversion \<^verbatim>\<open>%.df\<close>: the argument rounded to \<open>d\<close> decimals
  (to nearest, ties to even), given as the number of units of \<open>10\<^sup>-\<^sup>d\<close>.
\<close>

definition shown :: "nat \<Rightarrow> f32 \<Rightarrow> int" where
  "shown d x = rne (x * 10 ^ d)"

subsection \<open>Assembling and converting samples\<close>

text \<open>
  \<^verbatim>\<open>(hi << 8) | lo\<close> on bytes promoted to \<^verbatim>\<open>int\<close>, stored in an \<^verbatim>\<open>int16_t\<close>: the conversion
  keeps the low 16 bits.
\<close>

definition join16 :: "u8 \<Rightarrow> u8 \<Rightarrow> i16" where
  "join16 hi lo = ucast (push_bit 8 (ucast hi :: c_int) OR ucast lo)"

definition accel_g :: "i16 \<Rightarrow> f32" where
  "accel_g raw = f32_div (f32_of_int (sint raw)) ACCEL_SENS"

definition temp_c :: "i16 \<Rightarrow> f32" where
  "temp_c raw = f32_add (f32_div (f32_of_int (sint raw)) lit_340) lit_36_53"

definition gyro_dps :: "i16 \<Rightarrow> f32" where
  "gyro_dps raw = f32_div (f32_of_int (sint raw)) GYRO_SENS"

definition mag_adj :: "u8 \<Rightarrow> f32" where
  "mag_adj asa = f32_add (f32_div (f32_of_int (uint asa - 128)) lit_256) lit_1"

definition mag_uT :: "i16 \<Rightarrow> f32 \<Rightarrow> f32" where
  "mag_uT raw adj = f32_mul (f32_mul (f32_of_int (sint raw)) adj) lit_0_15"

subsection \<open>Initialisation\<close>

text \<open>
  \<^verbatim>\<open>init_mpu9250\<close> is one C function; its blocks are named here after the comments that
  head them in the source. Every \<^verbatim>\<open>IIC_WriteReg\<close> and \<^verbatim>\<open>IIC_ReadReg\<close> of the function is a
  statement whose value is dropped (\<open>snd\<close>, or the unused first component).
\<close>

definition init_wake :: "world \<Rightarrow> state \<Rightarrow> state" where
  "init_wake w s = usleep 1000 (snd (IIC_WriteReg w MPU_ADDR 0x6B 0x00 s))"

definition init_config :: "world \<Rightarrow> state \<Rightarrow> state" where
  "init_config w s =
     (let s = snd (IIC_WriteReg w MPU_ADDR 0x1A 0x03 s);
          s = snd (IIC_WriteReg w MPU_ADDR 0x1B 0x18 s);
          s = snd (IIC_WriteReg w MPU_ADDR 0x1C 0x10 s);
          s = snd (IIC_WriteReg w MPU_ADDR 0x1D 0x03 s)
      in snd (IIC_WriteReg w MPU_ADDR 0x19 0x07 s))"

definition init_bypass :: "world \<Rightarrow> state \<Rightarrow> state" where
  "init_bypass w s = usleep 1000 (snd (IIC_WriteReg w MPU_ADDR 0x37 0x02 s))"

text \<open>A 3-byte read of register \<^verbatim>\<open>0x10\<close> into the global \<^verbatim>\<open>ASA\<close>.\<close>

definition read_asa :: "world \<Rightarrow> state \<Rightarrow> state" where
  "read_asa w s =
     (let ((status, buf), s1) = IIC_ReadReg w MAG_ADDR 0x10 (ASA s) 3 s
      in s1\<lparr>ASA := buf\<rparr>)"

definition init_fuse_rom :: "world \<Rightarrow> state \<Rightarrow> state" where
  "init_fuse_rom w s =
     (let s = usleep 1000 (snd (IIC_WriteReg w MAG_ADDR 0x0A 0x00 s));
          s = usleep 1000 (snd (IIC_WriteReg w MAG_ADDR 0x0A 0x0F s));
          s = read_asa w s
      in usleep 1000 (snd (IIC_WriteReg w MAG_ADDR 0x0A 0x00 s)))"

definition init_who :: "world \<Rightarrow> state \<Rightarrow> state" where
  "init_who w s =
     (let ((status, who), s1) = IIC_ReadReg w MAG_ADDR 0x00 [0] 1 s
      in emit (Xil_printf_who (who ! 0)) s1)"

definition init_mode :: "world \<Rightarrow> state \<Rightarrow> state" where
  "init_mode w s = snd (IIC_WriteReg w MAG_ADDR 0x0A 0x16 s)"

definition init_confirm :: "world \<Rightarrow> state \<Rightarrow> state" where
  "init_confirm w s =
     (let s = read_asa w s
      in emit (Xil_printf_asa (ASA s ! 0) (ASA s ! 1) (ASA s ! 2)) s)"

definition init_mpu9250 :: "world \<Rightarrow> state \<Rightarrow> state" where
  "init_mpu9250 w s0 =
     (let s = emit Iic_initialize s0; Status = init_status w
      in if Status \<noteq> XST_SUCCESS then print (''Error inicializando IIC'' @ [CR, LF]) s
         else
           let s = emit Iic_start s;
               s = init_wake w s;
               s = init_config w s;
               s = init_bypass w s;
               s = init_fuse_rom w s;
               s = init_who w s;
               s = init_mode w s
           in init_confirm w s)"

subsection \<open>The two acquisition routines\<close>

definition read_mpu9250 :: "world \<Rightarrow> state \<Rightarrow> state" where
  "read_mpu9250 w s =
     (let ((n, data), s1) = IIC_ReadReg w MPU_ADDR 0x3B (uninit w s 14) 14 s
      in if n \<noteq> 14 then print (''Error leyendo datos del MPU'' @ [CR, LF]) s1
         else
           let ax = join16 (data ! 0) (data ! 1);
               ay = join16 (data ! 2) (data ! 3);
               az = join16 (data ! 4) (data ! 5);
               temp = join16 (data ! 6) (data ! 7);
               gx = join16 (data ! 8) (data ! 9);
               gy = join16 (data ! 10) (data ! 11);
               gz = join16 (data ! 12) (data ! 13)
           in emit (Printf_mpu (accel_g ax) (accel_g ay) (accel_g az) (temp_c temp)
                      (gyro_dps gx) (gyro_dps gy) (gyro_dps gz)) s1)"

definition read_magnetometer :: "world \<Rightarrow> state \<Rightarrow> state" where
  "read_magnetometer w s =
     (let ((status, st1), s1) = IIC_ReadReg w MAG_ADDR 0x02 (uninit w s 1) 1 s
      in if \<not> bit (st1 ! 0) 0 then s1
         else
           let ((n, data), s2) = IIC_ReadReg w MAG_ADDR 0x03 (uninit w s1 7) 7 s1
           in if n \<noteq> 7 then print (''Error leyendo datos del magnetometro'' @ [CR, LF]) s2
              else if bit (data ! 6) 3 then s2
              else
                let mx = join16 (data ! 1) (data ! 0);
                    my = join16 (data ! 3) (data ! 2);
                    mz = join16 (data ! 5) (data ! 4);
                    adjX = mag_adj (ASA s2 ! 0);
                    adjY = mag_adj (ASA s2 ! 1);
                    adjZ = mag_adj (ASA s2 ! 2)
                in emit (Printf_mag (mag_uT mx adjX) (mag_uT my adjY) (mag_uT mz adjZ)) s2)"

subsection \<open>The main program\<close>

text \<open>
  \<^verbatim>\<open>main\<close> never returns: its loop is \<^verbatim>\<open>while (1)\<close>. \<open>main w n\<close> is the state when the loop
  body has run \<open>n\<close> times, so the traces \<open>trace (main w n)\<close> for growing \<open>n\<close> are the
  growing prefixes of the one infinite run in world \<open>w\<close>.
\<close>

definition cycle :: "world \<Rightarrow> state \<Rightarrow> state" where
  "cycle w s = usleep 1000000 (read_magnetometer w (read_mpu9250 w s))"

fun acquisition_loop :: "world \<Rightarrow> nat \<Rightarrow> state \<Rightarrow> state" where
  "acquisition_loop w 0 s = s"
| "acquisition_loop w (Suc n) s = acquisition_loop w n (cycle w s)"

definition main :: "world \<Rightarrow> nat \<Rightarrow> state" where
  "main w n =
     acquisition_loop w n
       (init_mpu9250 w (print (''Iniciando MPU9250...'' @ [LF, CR]) (emit Init_platform boot)))"

subsection \<open>Observing a run\<close>

text \<open>The events a step appended: those of the later trace beyond the earlier one.\<close>

definition new_events :: "state \<Rightarrow> state \<Rightarrow> event list" where
  "new_events s s' = drop (length (trace s)) (trace s')"

text \<open>
  The diagnostic sink is the console; the driver reports a failure there with \<^verbatim>\<open>print\<close>.
\<close>

fun is_print :: "event \<Rightarrow> bool" where
  "is_print (Print m) = True"
| "is_print e = False"

fun is_mag_output :: "event \<Rightarrow> bool" where
  "is_mag_output (Printf_mag x y z) = True"
| "is_mag_output e = False"

text \<open>A register write to the primary device: a two-byte send to \<^verbatim>\<open>MPU_ADDR\<close>.\<close>

fun is_mpu_write :: "event \<Rightarrow> bool" where
  "is_mpu_write (Iic_send d buf n opt) = (d = MPU_ADDR \<and> n = 2)"
| "is_mpu_write e = False"

text \<open>
  The signed 16-bit number whose most significant byte is \<open>hi\<close> and whose least
  significant byte is \<open>lo\<close>, as an integer.
\<close>

definition signed16 :: "u8 \<Rightarrow> u8 \<Rightarrow> int" where
  "signed16 hi lo =
     (let u = 256 * uint hi + uint lo in if u < 32768 then u else u - 65536)"

subsection \<open>Example worlds\<close>

text \<open>
  \<open>no_controller\<close>: \<^verbatim>\<open>XIic_Initialize\<close> fails (status 1, \<^verbatim>\<open>XST_FAILURE\<close>) and no transfer moves
  a byte. \<open>silent_bus\<close>: the controller initialises but no transfer moves a byte.
\<close>

definition no_controller :: world where
  "no_controller =
     \<lparr>init_status = 1, send_ret = (\<lambda>k. 0), recv_ret = (\<lambda>k. (0, [])),
      stack_junk = (\<lambda>k i. 0)\<rparr>"

definition silent_bus :: world where
  "silent_bus =
     \<lparr>init_status = 0, send_ret = (\<lambda>k. 0), recv_ret = (\<lambda>k. (0, [])),
      stack_junk = (\<lambda>k i. 0)\<rparr>"

text \<open>
  \<open>bench\<close>: every transfer of initialisation and of the first cycle moves the bytes asked
  for. Bus primitives 0 to 16 are those of \<^verbatim>\<open>init_mpu9250\<close> (the receives are number 10, 13
  and 16), 17 to 22 those of the first cycle (receives 18, 20 and 22). The fuse ROM holds
  \<open>asa\<close>; the confirmation read returns \<open>asa'\<close>. The burst read returns accelerations 4096,
  -4096 and 0, temperature 0 and angular rates 1640, 0 and -1; the magnetometer reports
  data ready, (100, -2, 0) and no overflow. In the second cycle (primitives 23 to 28) the
  burst read and the magnetometer data read come back short, 5 bytes and 3 bytes. In the
  third cycle (primitives 29 to 33) the burst-read address is not acknowledged and the
  magnetometer reports a sample with the overflow bit set; from then on no address byte
  is acknowledged.
\<close>

definition bench :: "u8 list \<Rightarrow> u8 list \<Rightarrow> world" where
  "bench asa asa' =
     \<lparr>init_status = 0,
      send_ret =
        (\<lambda>k. if k \<in> {9, 12, 15, 17, 19, 21, 23, 25, 27, 30, 32} then 1 else 2),
      recv_ret = (\<lambda>k.
        if k = 10 then (3, asa)
        else if k = 13 then (1, [0x48])
        else if k = 16 then (3, asa')
        else if k = 18 then
          (14, [0x10, 0x00, 0xF0, 0x00, 0x00, 0x00, 0x00, 0x00, 0x06, 0x68, 0x00, 0x00, 0xFF, 0xFF])
        else if k = 20 then (1, [0x01])
        else if k = 22 then (7, [0x64, 0x00, 0xFE, 0xFF, 0x00, 0x00, 0x10])
        else if k = 24 then (5, [0x10, 0x00, 0xF0, 0x00, 0x00])
        else if k = 26 then (1, [0x01])
        else if k = 28 then (3, [0x64, 0x00, 0xFE])
        else if k = 31 then (1, [0x01])
        else if k = 33 then (7, [0xFF, 0x7F, 0xFF, 0x7F, 0xFF, 0x7F, 0x18])
        else (0, [])),
      stack_junk = (\<lambda>k i. 0xAB)\<rparr>"

text \<open>Names for the three register reads of the acquisition routines.\<close>

abbreviation mpu_burst :: "world \<Rightarrow> state \<Rightarrow> (int \<times> u8 list) \<times> state" where
  "mpu_burst w s \<equiv> IIC_ReadReg w MPU_ADDR 0x3B (uninit w s 14) 14 s"

abbreviation mag_status :: "world \<Rightarrow> state \<Rightarrow> (int \<times> u8 list) \<times> state" where
  "mag_status w s \<equiv> IIC_ReadReg w MAG_ADDR 0x02 (uninit w s 1) 1 s"

abbreviation mag_data :: "world \<Rightarrow> state \<Rightarrow> (int \<times> u8 list) \<times> state" where
  "mag_data w s \<equiv> IIC_ReadReg w MAG_ADDR 0x03 (uninit w s 7) 7 s"

section \<open>Basic facts\<close>

subsection \<open>What each primitive does to the state\<close>

lemma emit_simps:
  "trace (emit e s) = trace s @ [e]" "ASA (emit e s) = ASA s" "calls (emit e s) = calls s"
  by (simp_all add: emit_def)

lemma usleep_simps:
  "trace (usleep n s) = trace s @ [Usleep n]" "ASA (usleep n s) = ASA s"
  "calls (usleep n s) = calls s"
  by (simp_all add: usleep_def emit_simps)

lemma print_simps:
  "trace (print m s) = trace s @ [Print m]" "ASA (print m s) = ASA s"
  "calls (print m s) = calls s"
  by (simp_all add: print_def emit_simps)

lemma XIic_Send_simps:
  "fst (XIic_Send w dev buf n opt s) = send_ret w (calls s)"
  "trace (snd (XIic_Send w dev buf n opt s)) = trace s @ [Iic_send dev buf n opt]"
  "ASA (snd (XIic_Send w dev buf n opt s)) = ASA s"
  "calls (snd (XIic_Send w dev buf n opt s)) = Suc (calls s)"
  by (simp_all add: XIic_Send_def emit_simps)

lemma XIic_Recv_simps:
  "fst (fst (XIic_Recv w dev buf n opt s)) = fst (recv_ret w (calls s))"
  "snd (fst (XIic_Recv w dev buf n opt s)) = overwrite buf (take n (snd (recv_ret w (calls s))))"
  "trace (snd (XIic_Recv w dev buf n opt s)) = trace s @ [Iic_recv dev n opt]"
  "ASA (snd (XIic_Recv w dev buf n opt s)) = ASA s"
  "calls (snd (XIic_Recv w dev buf n opt s)) = Suc (calls s)"
  by (simp_all add: XIic_Recv_def emit_simps)

lemma IIC_WriteReg_simps:
  "fst (IIC_WriteReg w d r v s) = send_ret w (calls s)"
  "trace (snd (IIC_WriteReg w d r v s)) = trace s @ [Iic_send d [r, v] 2 XIIC_STOP]"
  "ASA (snd (IIC_WriteReg w d r v s)) = ASA s"
  "calls (snd (IIC_WriteReg w d r v s)) = Suc (calls s)"
  by (simp_all add: IIC_WriteReg_def XIic_Send_simps)

lemma IIC_ReadReg_fail:
  assumes "send_ret w (calls s) \<noteq> 1"
  shows "fst (fst (IIC_ReadReg w d r buf len s)) = send_ret w (calls s)"
    and "snd (fst (IIC_ReadReg w d r buf len s)) = buf"
    and "trace (snd (IIC_ReadReg w d r buf len s)) =
           trace s @ [Iic_send d [r] 1 XIIC_REPEATED_START]"
    and "ASA (snd (IIC_ReadReg w d r buf len s)) = ASA s"
    and "calls (snd (IIC_ReadReg w d r buf len s)) = Suc (calls s)"
  using assms by (simp_all add: IIC_ReadReg_def split_def XIic_Send_simps)

lemma IIC_ReadReg_recv:
  assumes "send_ret w (calls s) = 1"
  shows "fst (fst (IIC_ReadReg w d r buf len s)) = fst (recv_ret w (Suc (calls s)))"
    and "snd (fst (IIC_ReadReg w d r buf len s)) =
           overwrite buf (take len (snd (recv_ret w (Suc (calls s)))))"
    and "trace (snd (IIC_ReadReg w d r buf len s)) =
           trace s @ [Iic_send d [r] 1 XIIC_REPEATED_START, Iic_recv d len XIIC_STOP]"
    and "ASA (snd (IIC_ReadReg w d r buf len s)) = ASA s"
    and "calls (snd (IIC_ReadReg w d r buf len s)) = Suc (Suc (calls s))"
  using assms by (simp_all add: IIC_ReadReg_def split_def XIic_Send_simps XIic_Recv_simps)

lemma IIC_ReadReg_ASA [simp]: "ASA (snd (IIC_ReadReg w d r buf len s)) = ASA s"
  by (cases "send_ret w (calls s) = 1") (simp_all add: IIC_ReadReg_fail IIC_ReadReg_recv)

lemma IIC_ReadReg_trace:
  "trace (snd (IIC_ReadReg w d r buf len s)) =
     trace s @ Iic_send d [r] 1 XIIC_REPEATED_START #
       (if send_ret w (calls s) = 1 then [Iic_recv d len XIIC_STOP] else [])"
  by (simp add: IIC_ReadReg_fail IIC_ReadReg_recv)

lemma length_overwrite [simp]: "length (overwrite buf bytes) = length buf"
  by (simp add: overwrite_def)

lemma length_uninit [simp]: "length (uninit w s n) = n"
  by (simp add: uninit_def)

lemma IIC_ReadReg_length [simp]:
  "length (snd (fst (IIC_ReadReg w d r buf len s))) = length buf"
  by (cases "send_ret w (calls s) = 1") (simp_all add: IIC_ReadReg_fail IIC_ReadReg_recv)

lemma new_events_append [simp]: "trace s' = trace s @ es \<Longrightarrow> new_events s s' = es"
  by (simp add: new_events_def)

subsection \<open>The blocks of initialisation\<close>

lemma init_wake_simps:
  "trace (init_wake w s) = trace s @ [Iic_send MPU_ADDR [0x6B, 0x00] 2 XIIC_STOP, Usleep 1000]"
  "ASA (init_wake w s) = ASA s" "calls (init_wake w s) = Suc (calls s)"
  by (simp_all add: init_wake_def usleep_simps IIC_WriteReg_simps)

lemma init_config_simps:
  "trace (init_config w s) =
     trace s @
     [Iic_send MPU_ADDR [0x1A, 0x03] 2 XIIC_STOP, Iic_send MPU_ADDR [0x1B, 0x18] 2 XIIC_STOP,
      Iic_send MPU_ADDR [0x1C, 0x10] 2 XIIC_STOP, Iic_send MPU_ADDR [0x1D, 0x03] 2 XIIC_STOP,
      Iic_send MPU_ADDR [0x19, 0x07] 2 XIIC_STOP]"
  "ASA (init_config w s) = ASA s" "calls (init_config w s) = calls s + 5"
  by (simp_all add: init_config_def Let_def IIC_WriteReg_simps)

lemma init_bypass_simps:
  "trace (init_bypass w s) = trace s @ [Iic_send MPU_ADDR [0x37, 0x02] 2 XIIC_STOP, Usleep 1000]"
  "ASA (init_bypass w s) = ASA s" "calls (init_bypass w s) = Suc (calls s)"
  by (simp_all add: init_bypass_def usleep_simps IIC_WriteReg_simps)

lemma read_asa_simps:
  "trace (read_asa w s) = trace (snd (IIC_ReadReg w MAG_ADDR 0x10 (ASA s) 3 s))"
  "ASA (read_asa w s) = snd (fst (IIC_ReadReg w MAG_ADDR 0x10 (ASA s) 3 s))"
  "calls (read_asa w s) = calls (snd (IIC_ReadReg w MAG_ADDR 0x10 (ASA s) 3 s))"
  by (simp_all add: read_asa_def split_def Let_def)

lemma init_mode_simps:
  "trace (init_mode w s) = trace s @ [Iic_send MAG_ADDR [0x0A, 0x16] 2 XIIC_STOP]"
  "ASA (init_mode w s) = ASA s" "calls (init_mode w s) = Suc (calls s)"
  by (simp_all add: init_mode_def IIC_WriteReg_simps)

lemma init_who_ASA [simp]: "ASA (init_who w s) = ASA s"
  by (simp add: init_who_def split_def Let_def emit_simps)

lemma init_fuse_rom_ASA:
  "ASA (init_fuse_rom w s) =
     ASA (read_asa w (usleep 1000 (snd (IIC_WriteReg w MAG_ADDR 0x0A 0x0F
            (usleep 1000 (snd (IIC_WriteReg w MAG_ADDR 0x0A 0x00 s)))))))"
  by (simp add: init_fuse_rom_def Let_def usleep_simps IIC_WriteReg_simps)

lemma init_confirm_ASA: "ASA (init_confirm w s) = ASA (read_asa w s)"
  by (simp add: init_confirm_def Let_def emit_simps)

text \<open>No block of initialisation prints a message.\<close>

lemma IIC_ReadReg_no_print:
  "filter is_print (trace (snd (IIC_ReadReg w d r buf len s))) = filter is_print (trace s)"
  by (simp add: IIC_ReadReg_trace)

lemma init_blocks_no_print:
  "filter is_print (trace (init_wake w s)) = filter is_print (trace s)"
  "filter is_print (trace (init_config w s)) = filter is_print (trace s)"
  "filter is_print (trace (init_bypass w s)) = filter is_print (trace s)"
  "filter is_print (trace (read_asa w s)) = filter is_print (trace s)"
  "filter is_print (trace (init_mode w s)) = filter is_print (trace s)"
  by (simp_all add: init_wake_simps init_config_simps init_bypass_simps read_asa_simps
      init_mode_simps IIC_ReadReg_no_print)

lemma init_fuse_rom_no_print:
  "filter is_print (trace (init_fuse_rom w s)) = filter is_print (trace s)"
  by (simp add: init_fuse_rom_def Let_def usleep_simps IIC_WriteReg_simps init_blocks_no_print)

lemma init_who_no_print:
  "filter is_print (trace (init_who w s)) = filter is_print (trace s)"
  by (simp add: init_who_def split_def Let_def emit_simps IIC_ReadReg_no_print)

lemma init_confirm_no_print:
  "filter is_print (trace (init_confirm w s)) = filter is_print (trace s)"
  by (simp add: init_confirm_def Let_def emit_simps init_blocks_no_print)

text \<open>Initialisation only appends to the trace.\<close>

lemma init_fuse_rom_trace:
  "\<exists>es. trace (init_fuse_rom w s) = trace s @ es"
  by (simp add: init_fuse_rom_def Let_def usleep_simps IIC_WriteReg_simps read_asa_simps
      IIC_ReadReg_trace)

lemma init_who_trace: "\<exists>es. trace (init_who w s) = trace s @ es"
  by (simp add: init_who_def split_def Let_def emit_simps IIC_ReadReg_trace)

lemma init_confirm_trace: "\<exists>es. trace (init_confirm w s) = trace s @ es"
  by (simp add: init_confirm_def Let_def emit_simps read_asa_simps IIC_ReadReg_trace)

lemma init_mpu9250_trace: "\<exists>es. trace (init_mpu9250 w s) = trace s @ es"
proof (cases "init_status w = XST_SUCCESS")
  case False
  then show ?thesis
    by (simp add: init_mpu9250_def Let_def print_simps emit_simps)
next
  case True
  define s3 where "s3 = init_bypass w (init_config w (init_wake w (emit Iic_start
    (emit Iic_initialize s))))"
  obtain e3 where 3: "trace s3 = trace s @ e3"
    by (simp add: s3_def init_bypass_simps init_config_simps init_wake_simps emit_simps)
  obtain e4 where 4: "trace (init_fuse_rom w s3) = trace s3 @ e4"
    using init_fuse_rom_trace by blast
  obtain e5 where 5: "trace (init_who w (init_fuse_rom w s3)) = trace (init_fuse_rom w s3) @ e5"
    using init_who_trace by blast
  obtain e6 where 6: "trace (init_confirm w (init_mode w (init_who w (init_fuse_rom w s3)))) =
      trace (init_mode w (init_who w (init_fuse_rom w s3))) @ e6"
    using init_confirm_trace by blast
  have "init_mpu9250 w s = init_confirm w (init_mode w (init_who w (init_fuse_rom w s3)))"
    using True by (simp add: init_mpu9250_def Let_def s3_def)
  then show ?thesis
    by (simp add: 3 4 5 6 init_mode_simps)
qed

lemma filter_new_events:
  assumes "\<exists>es. trace s' = trace s @ es"
    and "filter P (trace s') = filter P (trace s) @ xs"
  shows "filter P (new_events s s') = xs"
  using assms by (auto simp: new_events_def)

lemma init_mpu9250_no_print:
  assumes "init_status w = XST_SUCCESS"
  shows "filter is_print (trace (init_mpu9250 w s)) = filter is_print (trace s)"
  using assms
  by (simp add: init_mpu9250_def Let_def init_confirm_no_print init_blocks_no_print
      init_who_no_print init_fuse_rom_no_print emit_simps)

subsection \<open>The acquisition routines and the loop\<close>

lemma read_mpu9250_fail:
  "fst (fst (mpu_burst w s)) \<noteq> 14 \<Longrightarrow>
   read_mpu9250 w s = print (''Error leyendo datos del MPU'' @ [CR, LF]) (snd (mpu_burst w s))"
  by (simp add: read_mpu9250_def split_def Let_def)

lemma read_mpu9250_ok:
  "fst (fst (mpu_burst w s)) = 14 \<Longrightarrow> data = snd (fst (mpu_burst w s)) \<Longrightarrow>
   read_mpu9250 w s =
     emit (Printf_mpu (accel_g (join16 (data ! 0) (data ! 1))) (accel_g (join16 (data ! 2) (data ! 3)))
             (accel_g (join16 (data ! 4) (data ! 5))) (temp_c (join16 (data ! 6) (data ! 7)))
             (gyro_dps (join16 (data ! 8) (data ! 9))) (gyro_dps (join16 (data ! 10) (data ! 11)))
             (gyro_dps (join16 (data ! 12) (data ! 13))))
       (snd (mpu_burst w s))"
  by (simp add: read_mpu9250_def split_def Let_def)

lemma read_mpu9250_ASA [simp]: "ASA (read_mpu9250 w s) = ASA s"
  by (simp add: read_mpu9250_def split_def Let_def print_simps emit_simps)

lemma read_mpu9250_trace:
  "\<exists>es. trace (read_mpu9250 w s) = trace s @ Iic_send MPU_ADDR [0x3B] 1 XIIC_REPEATED_START # es"
  by (simp add: read_mpu9250_def split_def Let_def print_simps emit_simps IIC_ReadReg_trace)

lemma read_magnetometer_idle:
  "\<not> bit (snd (fst (mag_status w s)) ! 0) 0 \<Longrightarrow> read_magnetometer w s = snd (mag_status w s)"
  by (simp add: read_magnetometer_def split_def Let_def)

lemma read_magnetometer_fail:
  "bit (snd (fst (mag_status w s)) ! 0) 0 \<Longrightarrow> s1 = snd (mag_status w s) \<Longrightarrow>
   fst (fst (mag_data w s1)) \<noteq> 7 \<Longrightarrow>
   read_magnetometer w s =
     print (''Error leyendo datos del magnetometro'' @ [CR, LF]) (snd (mag_data w s1))"
  by (simp add: read_magnetometer_def split_def Let_def)

lemma read_magnetometer_overflow:
  "bit (snd (fst (mag_status w s)) ! 0) 0 \<Longrightarrow> s1 = snd (mag_status w s) \<Longrightarrow>
   fst (fst (mag_data w s1)) = 7 \<Longrightarrow> bit (snd (fst (mag_data w s1)) ! 6) 3 \<Longrightarrow>
   read_magnetometer w s = snd (mag_data w s1)"
  by (simp add: read_magnetometer_def split_def Let_def)

lemma read_magnetometer_ok:
  "bit (snd (fst (mag_status w s)) ! 0) 0 \<Longrightarrow> s1 = snd (mag_status w s) \<Longrightarrow>
   fst (fst (mag_data w s1)) = 7 \<Longrightarrow> data = snd (fst (mag_data w s1)) \<Longrightarrow>
   \<not> bit (data ! 6) 3 \<Longrightarrow> s2 = snd (mag_data w s1) \<Longrightarrow>
   read_magnetometer w s =
     emit (Printf_mag (mag_uT (join16 (data ! 1) (data ! 0)) (mag_adj (ASA s2 ! 0)))
             (mag_uT (join16 (data ! 3) (data ! 2)) (mag_adj (ASA s2 ! 1)))
             (mag_uT (join16 (data ! 5) (data ! 4)) (mag_adj (ASA s2 ! 2)))) s2"
  by (simp add: read_magnetometer_def split_def Let_def)

lemma read_magnetometer_ASA [simp]: "ASA (read_magnetometer w s) = ASA s"
  by (simp add: read_magnetometer_def split_def Let_def print_simps emit_simps)

lemma read_magnetometer_trace:
  "\<exists>es. trace (read_magnetometer w s) =
          trace s @ Iic_send MAG_ADDR [0x02] 1 XIIC_REPEATED_START # es"
  by (simp add: read_magnetometer_def split_def Let_def print_simps emit_simps IIC_ReadReg_trace)

lemma cycle_ASA [simp]: "ASA (cycle w s) = ASA s"
  by (simp add: cycle_def usleep_simps)

lemma cycle_trace:
  "\<exists>es1 es2. trace (cycle w s) =
      trace s @ Iic_send MPU_ADDR [0x3B] 1 XIIC_REPEATED_START # es1 @
        Iic_send MAG_ADDR [0x02] 1 XIIC_REPEATED_START # es2 @ [Usleep 1000000]"
proof -
  obtain es1 where 1: "trace (read_mpu9250 w s) =
      trace s @ Iic_send MPU_ADDR [0x3B] 1 XIIC_REPEATED_START # es1"
    using read_mpu9250_trace by blast
  obtain es2 where 2: "trace (read_magnetometer w (read_mpu9250 w s)) =
      trace (read_mpu9250 w s) @ Iic_send MAG_ADDR [0x02] 1 XIIC_REPEATED_START # es2"
    using read_magnetometer_trace by blast
  show ?thesis
    by (rule exI [of _ es1], rule exI [of _ es2]) (simp add: cycle_def usleep_simps 1 2)
qed

lemma acquisition_loop_ASA [simp]: "ASA (acquisition_loop w n s) = ASA s"
  by (induction n arbitrary: s) simp_all

lemma acquisition_loop_snoc:
  "acquisition_loop w (Suc n) s = cycle w (acquisition_loop w n s)"
  by (induction n arbitrary: s) simp_all

lemma main_Suc: "main w (Suc n) = cycle w (main w n)"
  unfolding main_def by (rule acquisition_loop_snoc)

subsection \<open>Byte pairs\<close>

lemma join16_word_cat: "join16 hi lo = word_cat hi lo"
  unfolding join16_def
  by (rule bit_word_eqI) (auto simp add: bit_simps dest: bit_imp_le_length)

lemma byte_bounds: "0 \<le> uint (b :: u8)" "uint (b :: u8) < 256"
  using uint_bounded [of b] by simp_all

lemma uint_join16: "uint (join16 hi lo) = 256 * uint hi + uint lo"
proof -
  have "uint (join16 hi lo) = take_bit 16 (concat_bit 8 (uint lo) (uint hi))"
    by (simp add: join16_word_cat word_cat_eq' uint_word_of_int_eq)
  also have "concat_bit 8 (uint lo) (uint hi) = uint lo + 256 * uint hi"
    using byte_bounds [of lo]
    by (simp add: concat_bit_eq push_bit_eq_mult take_bit_int_eq_self)
  also have "take_bit 16 (uint lo + 256 * uint hi) = uint lo + 256 * uint hi"
    using byte_bounds [of lo] byte_bounds [of hi]
    by (simp add: take_bit_int_eq_self)
  finally show ?thesis by simp
qed

lemma bit15_iff:
  fixes u :: int
  assumes "0 \<le> u" "u < 65536"
  shows "bit u 15 \<longleftrightarrow> 32768 \<le> u"
proof (cases "u < 32768")
  case True
  then have "u div 32768 = 0"
    using assms by simp
  then show ?thesis
    using True by (simp add: bit_iff_odd)
next
  case False
  define v where "v = u - 32768"
  have v: "0 \<le> v" "v < 32768" and u: "u = v + 32768"
    using False assms by (simp_all add: v_def)
  have "u div 32768 = 1"
    unfolding u using v by simp
  then show ?thesis
    using False by (simp add: bit_iff_odd)
qed

lemma sint_join16: "sint (join16 hi lo) = signed16 hi lo"
proof -
  let ?u = "256 * uint hi + uint lo"
  have b: "0 \<le> ?u" "?u < 65536"
    using byte_bounds [of lo] byte_bounds [of hi] by simp_all
  have "sint (join16 hi lo) = signed_take_bit 15 ?u"
    by (simp add: sint_uint uint_join16)
  also have "\<dots> = take_bit 16 ?u - 2 ^ 16 * of_bool (bit ?u 15)"
    by (simp add: signed_take_bit_eq_take_bit_minus)
  also have "take_bit 16 ?u = ?u"
    using b by (simp add: take_bit_int_eq_self)
  finally show ?thesis
    using bit15_iff [OF b] by (simp add: signed16_def Let_def)
qed

subsection \<open>Rounding to single precision\<close>

lemma rne_of_int [simp]: "rne (of_int n) = n"
  by (simp add: rne_def)

lemma rne_of_int_times [simp]: "rne (of_int m * 2 ^ n) = m * 2 ^ n"
  using rne_of_int [of "m * 2 ^ n"] by simp

lemma rne_error: "\<bar>of_int (rne x) - x\<bar> \<le> 1 / 2"
proof -
  have "of_int \<lfloor>x\<rfloor> \<le> x" "x < of_int \<lfloor>x\<rfloor> + 1"
    by linarith+
  then show ?thesis
    unfolding rne_def Let_def by (simp add: abs_if) linarith
qed

lemma two_powi_nat: "0 \<le> k \<Longrightarrow> (2::rat) powi k = of_int (2 ^ nat k)"
  by (simp add: power_int_def)

lemma ilog2_bounds:
  assumes "0 < x"
  shows "2 powi (ilog2 x) \<le> x \<and> x < 2 powi (ilog2 x + 1)"
proof -
  obtain p q where pq: "quotient_of x = (p, q)"
    by (cases "quotient_of x")
  have q: "0 < q" and x: "x = of_int p / of_int q"
    using pq by (simp_all add: quotient_of_denom_pos quotient_of_div)
  have p: "0 < p"
    using assms q unfolding x by (simp add: zero_less_divide_iff)
  define d where "d = bitlen p - bitlen q"
  have lp: "1 \<le> bitlen p" and lq: "1 \<le> bitlen q"
    using p q bitlen_eq_zero_iff [of p] bitlen_eq_zero_iff [of q] bitlen_nonneg [of p]
      bitlen_nonneg [of q] by linarith+
  have rp: "(2::rat) powi (bitlen p - 1) \<le> of_int p" "of_int p < (2::rat) powi (bitlen p)"
    using bitlen_bounds [OF p] lp by (simp_all add: two_powi_nat)
  have rq: "(2::rat) powi (bitlen q - 1) \<le> of_int q" "of_int q < (2::rat) powi (bitlen q)"
    using bitlen_bounds [OF q] lq by (simp_all add: two_powi_nat)
  have qpos: "(0::rat) < of_int q"
    using q by simp
  have lower: "(2::rat) powi (d - 1) < x"
  proof -
    have "(2::rat) powi (d - 1) * of_int q < 2 powi (d - 1) * 2 powi (bitlen q)"
      using rq(2) by (simp add: mult_strict_left_mono)
    also have "\<dots> = 2 powi (bitlen p - 1)"
      by (simp add: d_def power_int_add [symmetric])
    also have "\<dots> \<le> of_int p"
      by (rule rp(1))
    finally show ?thesis
      unfolding x using qpos by (simp add: pos_less_divide_eq)
  qed
  have upper: "x < (2::rat) powi (d + 1)"
  proof -
    have "of_int p < (2::rat) powi (bitlen p)"
      by (rule rp(2))
    also have "\<dots> = 2 powi (d + 1) * 2 powi (bitlen q - 1)"
      by (simp add: d_def power_int_add [symmetric])
    also have "\<dots> \<le> 2 powi (d + 1) * of_int q"
      using rq(1) by (simp add: mult_left_mono)
    finally show ?thesis
      unfolding x using qpos by (simp add: pos_divide_less_eq)
  qed
  have il: "ilog2 x = (if 2 powi d \<le> x then d else d - 1)"
    by (simp add: ilog2_def pq d_def Let_def)
  show ?thesis
  proof (cases "2 powi d \<le> x")
    case True
    then show ?thesis using upper il by simp
  next
    case False
    then show ?thesis using lower il by simp
  qed
qed

lemma ilog2_le:
  assumes "0 < x" and "x < 2 powi (k + 1)"
  shows "ilog2 x \<le> k"
proof -
  have "(2::rat) powi (ilog2 x) < 2 powi (k + 1)"
    using ilog2_bounds [OF assms(1)] assms(2) by linarith
  then have "\<not> k + 1 \<le> ilog2 x"
    using power_int_increasing [of "k + 1" "ilog2 x" "2::rat"] by auto
  then show ?thesis by simp
qed

text \<open>The rounding error is at most half a unit in the last place.\<close>

lemma f32_round_error:
  assumes "\<bar>x\<bar> < 2 powi (k + 1)" and "- 126 \<le> k"
  shows "\<bar>f32_round x - x\<bar> \<le> 2 powi (k - 24)"
proof (cases "x = 0")
  case True
  then show ?thesis by (simp add: f32_round_def)
next
  case False
  define e where "e = max (ilog2 \<bar>x\<bar>) (- 126)"
  define ulp :: rat where "ulp = 2 powi (e - 23)"
  have ek: "e \<le> k"
    using ilog2_le [of "\<bar>x\<bar>" k] assms False by (simp add: e_def)
  have ulp: "0 < ulp"
    by (simp add: ulp_def)
  have r: "f32_round x = of_int (rne (x / ulp)) * ulp"
    using False by (simp add: f32_round_def Let_def e_def ulp_def)
  have "f32_round x - x = (of_int (rne (x / ulp)) - x / ulp) * ulp"
    using ulp by (simp add: r algebra_simps)
  then have "\<bar>f32_round x - x\<bar> = \<bar>of_int (rne (x / ulp)) - x / ulp\<bar> * ulp"
    using ulp by (simp add: abs_mult)
  also have "\<dots> \<le> 1 / 2 * ulp"
    using rne_error [of "x / ulp"] ulp by (simp add: mult_right_mono)
  also have "\<dots> = 2 powi (e - 24)"
  proof -
    have "(2::rat) powi (e - 23) = 2 powi (e - 24) * 2"
      using power_int_add [of "2::rat" "e - 24" 1] by simp
    then show ?thesis by (simp add: ulp_def)
  qed
  also have "\<dots> \<le> 2 powi (k - 24)"
    using ek by (simp add: power_int_increasing)
  finally show ?thesis .
qed

text \<open>A number with at most 24 significant bits above the smallest exponent is not changed.\<close>

lemma f32_round_exact:
  assumes "\<bar>m\<bar> < 2 ^ 24" and "- 149 \<le> j"
  shows "f32_round (of_int m * 2 powi j) = of_int m * 2 powi j"
proof (cases "m = 0")
  case True
  then show ?thesis by (simp add: f32_round_def)
next
  case False
  define x :: rat where "x = of_int m * 2 powi j"
  define e where "e = max (ilog2 \<bar>x\<bar>) (- 126)"
  have x0: "x \<noteq> 0"
    using False by (simp add: x_def)
  have ax: "\<bar>x\<bar> = of_int \<bar>m\<bar> * 2 powi j"
    by (simp add: x_def abs_mult)
  have "of_int \<bar>m\<bar> < (2::rat) ^ 24"
    using assms(1) by (metis of_int_less_numeral_power_cancel_iff)
  then have "\<bar>x\<bar> < 2 ^ 24 * 2 powi j"
    unfolding ax by (simp add: mult_strict_right_mono)
  also have "\<dots> = 2 powi (j + 23 + 1)"
    using power_int_add [of "2::rat" 24 j] by (simp add: add.commute)
  finally have "ilog2 \<bar>x\<bar> \<le> j + 23"
    using x0 by (intro ilog2_le) simp_all
  then have ej: "e \<le> j + 23"
    using assms(2) by (simp add: e_def)
  define n where "n = nat (j + 23 - e)"
  have jn: "j = (e - 23) + int n"
    using ej by (simp add: n_def)
  have "(2::rat) powi j = 2 powi (e - 23) * 2 ^ n"
    unfolding jn using power_int_add [of "2::rat" "e - 23" "int n"] by simp
  then have "x / 2 powi (e - 23) = of_int (m * 2 ^ n)"
    by (simp add: x_def)
  then have "of_int (rne (x / 2 powi (e - 23))) * 2 powi (e - 23) = x"
    by (simp add: x_def \<open>(2::rat) powi j = 2 powi (e - 23) * 2 ^ n\<close>)
  then show ?thesis
    using x0 unfolding x_def [symmetric] by (simp add: f32_round_def Let_def e_def)
qed

lemma f32_round_of_int: "\<bar>m\<bar> < 2 ^ 24 \<Longrightarrow> f32_round (of_int m) = of_int m"
  using f32_round_exact [of m 0] by simp

subsection \<open>The conversions\<close>

lemma literals_exact:
  "ACCEL_SENS = 4096" "lit_340 = 340" "lit_256 = 256" "lit_1 = 1"
  using f32_round_of_int [of 4096] f32_round_of_int [of 340] f32_round_of_int [of 256]
    f32_round_of_int [of 1]
  by (simp_all add: ACCEL_SENS_def lit_340_def lit_256_def lit_1_def)

lemma literals_rounded:
  "GYRO_SENS = 8598323 / 524288" "lit_36_53 = 1197015 / 32768" "lit_0_15 = 5033165 / 33554432"
  unfolding GYRO_SENS_def lit_36_53_def lit_0_15_def by code_simp+

lemma sint16_bounds: "- 32768 \<le> sint (raw :: i16)" "sint (raw :: i16) < 32768"
  using sint_ge [of raw] sint_lt [of raw] by simp_all

lemma f32_of_int_sint16: "f32_of_int (sint (raw :: i16)) = of_int (sint raw)"
  unfolding f32_of_int_def using sint16_bounds [of raw] by (intro f32_round_of_int) simp

lemma powi_minus12: "(2::rat) powi (- 12) = 1 / 4096"
  by (simp add: power_int_minus_left)

lemma accel_g_exact: "accel_g raw = of_int (sint raw) / 4096"
proof -
  have "f32_round (of_int (sint raw) * 2 powi (- 12)) = of_int (sint raw) * 2 powi (- 12)"
    using sint16_bounds [of raw] by (intro f32_round_exact) simp_all
  then have "f32_round (of_int (sint raw) / 4096) = of_int (sint raw) / 4096"
    unfolding powi_minus12 by simp
  then show ?thesis
    by (simp add: accel_g_def f32_div_def f32_of_int_sint16 literals_exact)
qed

lemma conversion_examples:
  "accel_g 4096 = 1" "accel_g (- 4096) = - 1"
  "temp_c 0 = 1197015 / 32768" "gyro_dps 1640 = 100"
  "shown 3 (accel_g 4096) = 1000" "shown 3 (accel_g (- 4096)) = - 1000"
  "shown 2 (temp_c 0) = 3653" "shown 3 (gyro_dps 1640) = 100000"
  by code_simp+

lemma mag_examples:
  "mag_adj 128 = 1" "mag_uT 100 (mag_adj 128) = 15 + 1 / 2 ^ 20"
  "shown 2 (mag_uT 100 (mag_adj 128)) = 1500"
  by code_simp+

lemma temp_c_error:
  "\<bar>temp_c raw - (of_int (sint raw) / 340 + 3653 / 100)\<bar> \<le> 1 / 2 ^ 16"
proof -
  define m :: rat where "m = of_int (sint raw)"
  have m: "- 32768 \<le> m" "m < 32768"
    using sint16_bounds [of raw] by (simp_all add: m_def del: of_int_sint)
  define t1 where "t1 = f32_round (m / 340)"
  have "\<bar>m / 340\<bar> < 2 powi (6 + 1)"
    using m by (simp add: abs_if)
  then have e1: "\<bar>t1 - m / 340\<bar> \<le> 2 powi (6 - 24)"
    unfolding t1_def by (rule f32_round_error) simp
  have e1': "\<bar>t1 - m / 340\<bar> \<le> 1 / 2 ^ 18"
    using e1 by (simp add: power_int_minus_left)
  have "\<bar>t1 + 1197015 / 32768\<bar> < 2 powi (7 + 1)"
    using e1' m by (simp add: abs_if split: if_splits)
  then have e2: "\<bar>f32_round (t1 + 1197015 / 32768) - (t1 + 1197015 / 32768)\<bar> \<le> 2 powi (7 - 24)"
    by (rule f32_round_error) simp
  have e2': "\<bar>f32_round (t1 + 1197015 / 32768) - (t1 + 1197015 / 32768)\<bar> \<le> 1 / 2 ^ 17"
    using e2 by (simp add: power_int_minus_left)
  have "temp_c raw = f32_round (t1 + 1197015 / 32768)"
    by (simp add: temp_c_def f32_add_def f32_div_def f32_of_int_sint16 literals_exact
        literals_rounded t1_def m_def del: of_int_sint)
  then show ?thesis
    using e1' e2' unfolding m_def [symmetric] by (simp add: abs_if split: if_splits)
qed

lemma gyro_dps_error:
  "\<bar>gyro_dps raw - of_int (sint raw) / (164 / 10)\<bar> \<le> 1 / 2 ^ 13"
proof -
  define m :: rat where "m = of_int (sint raw)"
  have m: "- 32768 \<le> m" "m < 32768"
    using sint16_bounds [of raw] by (simp_all add: m_def del: of_int_sint)
  have "\<bar>m / (8598323 / 524288)\<bar> < 2 powi (10 + 1)"
    using m by (simp add: abs_if)
  then have "\<bar>f32_round (m / (8598323 / 524288)) - m / (8598323 / 524288)\<bar> \<le> 2 powi (10 - 24)"
    by (rule f32_round_error) simp
  then have e: "\<bar>f32_round (m / (8598323 / 524288)) - m / (8598323 / 524288)\<bar> \<le> 1 / 2 ^ 14"
    by (simp add: power_int_minus_left)
  have c: "\<bar>m / (8598323 / 524288) - m / (164 / 10)\<bar> \<le> 1 / 2 ^ 14"
    using m by (simp add: abs_if)
  have "gyro_dps raw = f32_round (m / (8598323 / 524288))"
    by (simp add: gyro_dps_def f32_div_def f32_of_int_sint16 literals_rounded m_def
        del: of_int_sint)
  then show ?thesis
    using e c unfolding m_def [symmetric] by (simp add: abs_if split: if_splits)
qed

lemma powi_minus8: "(2::rat) powi (- 8) = 1 / 256"
  by (simp add: power_int_minus_left)

lemma mag_adj_exact: "mag_adj asa = (of_int (uint asa) - 128) / 256 + 1"
proof -
  define a where "a = uint asa - 128"
  have a: "- 128 \<le> a" "a < 128"
    using byte_bounds [of asa] by (simp_all add: a_def)
  have 1: "f32_of_int a = of_int a"
    unfolding f32_of_int_def using a by (intro f32_round_of_int) simp
  have "f32_round (of_int a * 2 powi (- 8)) = of_int a * 2 powi (- 8)"
    using a by (intro f32_round_exact) simp_all
  then have 2: "f32_round (of_int a / 256) = of_int a / 256"
    unfolding powi_minus8 by simp
  have "f32_round (of_int (a + 256) * 2 powi (- 8)) = of_int (a + 256) * 2 powi (- 8)"
    using a by (intro f32_round_exact) simp_all
  then have 3: "f32_round (of_int a / 256 + 1) = of_int a / 256 + 1"
    unfolding powi_minus8 by (simp add: add_divide_distrib)
  have "mag_adj asa = of_int a / 256 + 1"
    by (simp add: mag_adj_def f32_add_def f32_div_def literals_exact 1 2 3
        a_def [symmetric])
  then show ?thesis
    by (simp add: a_def)
qed

lemma uint8_rat_bounds: "(0::rat) \<le> of_int (uint (b :: u8))" "(of_int (uint (b :: u8)) :: rat) \<le> 255"
proof -
  have "0 \<le> uint b" "uint b \<le> 255"
    using byte_bounds [of b] by simp_all
  then have "(of_int 0 :: rat) \<le> of_int (uint b)" "(of_int (uint b) :: rat) \<le> of_int 255"
    by (simp_all only: of_int_le_iff)
  then show "(0::rat) \<le> of_int (uint b)" "(of_int (uint b) :: rat) \<le> 255"
    by (simp_all del: of_int_uint of_nat_unat)
qed

lemma sint16_rat_bounds: "\<bar>of_int (sint (raw :: i16)) :: rat\<bar> \<le> 32768"
proof -
  have "\<bar>sint raw\<bar> \<le> 32768"
    using sint16_bounds [of raw] by simp
  then have "(of_int \<bar>sint raw\<bar> :: rat) \<le> of_int 32768"
    by (simp only: of_int_le_iff)
  then show ?thesis
    by (simp del: of_int_sint)
qed

lemma mag_product_exact:
  "f32_mul (f32_of_int (sint (raw :: i16))) (mag_adj asa) =
     of_int (sint raw) * ((of_int (uint asa) - 128) / 256 + 1)"
proof -
  define m where "m = sint raw"
  define b where "b = uint asa + 128"
  have m: "- 32768 \<le> m" "m < 32768"
    using sint16_bounds [of raw] by (simp_all add: m_def)
  have b: "128 \<le> b" "b < 384"
    using byte_bounds [of asa] by (simp_all add: b_def)
  have "\<bar>m * b\<bar> = \<bar>m\<bar> * b"
    using b by (simp add: abs_mult)
  also have "\<dots> \<le> 32768 * 383"
    using m b by (intro mult_mono) simp_all
  finally have mb: "\<bar>m * b\<bar> < 2 ^ 24"
    by simp
  have "f32_round (of_int (m * b) * 2 powi (- 8)) = of_int (m * b) * 2 powi (- 8)"
    using mb by (intro f32_round_exact) simp_all
  then have eq1: "f32_round (of_int m * (of_int b / 256)) = of_int m * (of_int b / 256)"
    unfolding powi_minus8 by simp
  have eq2: "(of_int (uint asa) - 128) / 256 + 1 = (of_int b / 256 :: rat)"
    unfolding b_def by (simp add: add_divide_distrib diff_divide_distrib del: of_int_uint of_nat_unat)
  have fm: "f32_of_int m = of_int m"
    unfolding m_def by (rule f32_of_int_sint16)
  show ?thesis
    unfolding f32_mul_def mag_adj_exact eq2 m_def [symmetric] fm by (rule eq1)
qed

lemma adj_range:
  fixes u :: rat
  assumes "0 \<le> u" and "u \<le> 255"
  shows "0 \<le> (u - 128) / 256 + 1" and "(u - 128) / 256 + 1 \<le> 383 / 256"
  using assms by (simp_all add: field_simps)

lemma mag_uT_error:
  "\<bar>mag_uT raw (mag_adj asa) -
     of_int (sint raw) * ((of_int (uint asa) - 128) / 256 + 1) * (15 / 100)\<bar> \<le> 1 / 2 ^ 10"
proof -
  define b :: rat where "b = (of_int (uint asa) - 128) / 256 + 1"
  define p :: rat where "p = of_int (sint raw) * b"
  have b: "0 \<le> b" "b \<le> 383 / 256"
    unfolding b_def by (rule adj_range [OF uint8_rat_bounds])+
  have "\<bar>p\<bar> = \<bar>of_int (sint raw)\<bar> * b"
    unfolding p_def abs_mult using b by simp
  also have "\<dots> \<le> 32768 * (383 / 256)"
    using sint16_rat_bounds [of raw] b by (intro mult_mono) simp_all
  finally have p: "\<bar>p\<bar> \<le> 49024"
    by simp
  have "\<bar>p * (5033165 / 33554432)\<bar> < 2 powi (12 + 1)"
    using p by (simp add: abs_if split: if_splits)
  then have "\<bar>f32_round (p * (5033165 / 33554432)) - p * (5033165 / 33554432)\<bar>
      \<le> 2 powi (12 - 24)"
    by (rule f32_round_error) simp
  then have e: "\<bar>f32_round (p * (5033165 / 33554432)) - p * (5033165 / 33554432)\<bar>
      \<le> 1 / 2 ^ 12"
    by (simp add: power_int_minus_left)
  have "mag_uT raw (mag_adj asa) = f32_mul p lit_0_15"
    unfolding mag_uT_def mag_product_exact p_def b_def ..
  then have "mag_uT raw (mag_adj asa) = f32_round (p * (5033165 / 33554432))"
    unfolding f32_mul_def literals_rounded .
  then show ?thesis
    using e p unfolding b_def [symmetric] p_def [symmetric]
    by (simp add: abs_if split: if_splits)
qed

subsection \<open>A cycle on the bench\<close>

lemma more_examples:
  "accel_g 0 = 0" "gyro_dps 0 = 0" "gyro_dps (- 1) = - (1023001 / 16777216)"
  "mag_uT (- 2) 1 = - (5033165 / 16777216)" "mag_uT 0 1 = 0"
  "mag_uT 100 1 = 15 + 1 / 2 ^ 20"
  by code_simp+

lemma join_examples:
  "join16 0x10 0x00 = 4096" "join16 0xF0 0x00 = - 4096" "join16 0x00 0x00 = 0"
  "join16 0x06 0x68 = 1640" "join16 0xFF 0xFF = - 1" "join16 0x00 0x64 = 100"
  "join16 0xFF 0xFE = - 2"
  by (simp_all add: join16_def)

text \<open>
  The first cycle on the bench, from the state in which initialisation leaves the program
  when the fuse ROM holds 128, 128, 128.
\<close>

lemma first_cycle_on_the_bench:
  "new_events (boot\<lparr>ASA := [128, 128, 128], calls := 17\<rparr>)
     (cycle (bench [128, 128, 128] [128, 128, 128]) (boot\<lparr>ASA := [128, 128, 128], calls := 17\<rparr>)) =
     [Iic_send MPU_ADDR [0x3B] 1 XIIC_REPEATED_START, Iic_recv MPU_ADDR 14 XIIC_STOP,
      Printf_mpu 1 (- 1) 0 (1197015 / 32768) 100 0 (- (1023001 / 16777216)),
      Iic_send MAG_ADDR [0x02] 1 XIIC_REPEATED_START, Iic_recv MAG_ADDR 1 XIIC_STOP,
      Iic_send MAG_ADDR [0x03] 1 XIIC_REPEATED_START, Iic_recv MAG_ADDR 7 XIIC_STOP,
      Printf_mag (15 + 1 / 2 ^ 20) (- (5033165 / 16777216)) 0,
      Usleep 1000000]"
proof -
  let ?w = "bench [128, 128, 128] [128, 128, 128]"
  let ?burst = "[0x10, 0x00, 0xF0, 0x00, 0x00, 0x00, 0x00, 0x00, 0x06, 0x68, 0x00, 0x00, 0xFF, 0xFF]
    :: u8 list"
  let ?sample = "[0x64, 0x00, 0xFE, 0xFF, 0x00, 0x00, 0x10] :: u8 list"
  have w: "send_ret ?w 17 = 1" "recv_ret ?w 18 = (14, ?burst)" "send_ret ?w 19 = 1"
    "recv_ret ?w 20 = (1, [0x01])" "send_ret ?w 21 = 1" "recv_ret ?w 22 = (7, ?sample)"
    by (simp_all add: bench_def)
  define s where "s = boot\<lparr>ASA := [128, 128, 128], calls := 17\<rparr>"
  define a where "a = read_mpu9250 ?w s"
  define b where "b = snd (mag_status ?w a)"
  have s: "trace s = []" "calls s = 17" "ASA s = [128, 128, 128]"
    by (simp_all add: s_def boot_def)
  have s17: "send_ret ?w (calls s) = 1"
    by (simp add: s w)
  have burst: "fst (fst (mpu_burst ?w s)) = 14" "?burst = snd (fst (mpu_burst ?w s))"
    by (simp_all add: IIC_ReadReg_recv [OF s17] s w overwrite_def)
  have a: "a = emit (Printf_mpu 1 (- 1) 0 (1197015 / 32768) 100 0 (- (1023001 / 16777216)))
      (snd (mpu_burst ?w s))"
    unfolding a_def read_mpu9250_ok [OF burst]
    by (simp add: join_examples conversion_examples more_examples)
  have ta: "trace a =
      [Iic_send MPU_ADDR [0x3B] 1 XIIC_REPEATED_START, Iic_recv MPU_ADDR 14 XIIC_STOP,
       Printf_mpu 1 (- 1) 0 (1197015 / 32768) 100 0 (- (1023001 / 16777216))]"
    and ca: "calls a = 19" and aa: "ASA a = [128, 128, 128]"
    unfolding a by (simp_all add: emit_simps IIC_ReadReg_recv [OF s17] s)
  have s19: "send_ret ?w (calls a) = 1"
    by (simp add: ca w)
  have st: "bit (snd (fst (mag_status ?w a)) ! 0) 0"
    by (simp add: IIC_ReadReg_recv [OF s19] ca w overwrite_def uninit_def)
  have tb: "trace b = trace a @
      [Iic_send MAG_ADDR [0x02] 1 XIIC_REPEATED_START, Iic_recv MAG_ADDR 1 XIIC_STOP]"
    and cb: "calls b = 21" and ab: "ASA b = [128, 128, 128]"
    unfolding b_def by (simp_all add: IIC_ReadReg_recv [OF s19] ca aa)
  have s21: "send_ret ?w (calls b) = 1"
    by (simp add: cb w)
  have sample: "fst (fst (mag_data ?w b)) = 7" "?sample = snd (fst (mag_data ?w b))"
    by (simp_all add: IIC_ReadReg_recv [OF s21] cb w overwrite_def)
  have ovf: "\<not> bit (?sample ! 6) 3"
    by simp
  have "read_magnetometer ?w a =
      emit (Printf_mag (15 + 1 / 2 ^ 20) (- (5033165 / 16777216)) 0) (snd (mag_data ?w b))"
    unfolding read_magnetometer_ok [OF st b_def sample ovf refl]
    by (simp add: ab join_examples mag_examples more_examples)
  then have "trace (read_magnetometer ?w a) = trace b @
      [Iic_send MAG_ADDR [0x03] 1 XIIC_REPEATED_START, Iic_recv MAG_ADDR 7 XIIC_STOP,
       Printf_mag (15 + 1 / 2 ^ 20) (- (5033165 / 16777216)) 0]"
    by (simp add: emit_simps IIC_ReadReg_recv [OF s21])
  then have "new_events s (cycle ?w s) =
     [Iic_send MPU_ADDR [0x3B] 1 XIIC_REPEATED_START, Iic_recv MPU_ADDR 14 XIIC_STOP,
      Printf_mpu 1 (- 1) 0 (1197015 / 32768) 100 0 (- (1023001 / 16777216)),
      Iic_send MAG_ADDR [0x02] 1 XIIC_REPEATED_START, Iic_recv MAG_ADDR 1 XIIC_STOP,
      Iic_send MAG_ADDR [0x03] 1 XIIC_REPEATED_START, Iic_recv MAG_ADDR 7 XIIC_STOP,
      Printf_mag (15 + 1 / 2 ^ 20) (- (5033165 / 16777216)) 0,
      Usleep 1000000]"
    unfolding cycle_def a_def [symmetric] by (simp add: usleep_simps ta tb s new_events_def)
  then show ?thesis
    unfolding s_def .
qed

section \<open>The bus transaction helper\<close>

text \<open>
  Claim C8. For every call of \<^verbatim>\<open>IIC_ReadReg\<close>: if the address-write phase does not
  transfer exactly one byte, the call returns that phase's status, leaves the buffer as it
  was and performs no receive (the only event is the send); otherwise it performs the
  receive of the requested count and returns the receive's result.
\<close>

theorem IIC_ReadReg_two_phases:
  "(send_ret w (calls s) \<noteq> 1 \<longrightarrow>
      fst (fst (IIC_ReadReg w d r buf len s)) = send_ret w (calls s) \<and>
      snd (fst (IIC_ReadReg w d r buf len s)) = buf \<and>
      new_events s (snd (IIC_ReadReg w d r buf len s)) =
        [Iic_send d [r] 1 XIIC_REPEATED_START]) \<and>
   (send_ret w (calls s) = 1 \<longrightarrow>
      fst (fst (IIC_ReadReg w d r buf len s)) = fst (recv_ret w (Suc (calls s))) \<and>
      snd (fst (IIC_ReadReg w d r buf len s)) =
        overwrite buf (take len (snd (recv_ret w (Suc (calls s))))) \<and>
      new_events s (snd (IIC_ReadReg w d r buf len s)) =
        [Iic_send d [r] 1 XIIC_REPEATED_START, Iic_recv d len XIIC_STOP])"
  by (simp add: IIC_ReadReg_fail IIC_ReadReg_recv)

theorem IIC_ReadReg_two_phases_witness:
  "send_ret silent_bus (calls boot) \<noteq> 1 \<and>
   IIC_ReadReg silent_bus MAG_ADDR 0x10 [7, 8, 9] 3 boot =
     ((0, [7, 8, 9]),
      \<lparr>ASA = [0, 0, 0], trace = [Iic_send MAG_ADDR [0x10] 1 XIIC_REPEATED_START], calls = 1\<rparr>) \<and>
   send_ret (bench [1, 2, 3] [4, 5, 6]) (calls (boot\<lparr>calls := 9\<rparr>)) = 1 \<and>
   fst (IIC_ReadReg (bench [1, 2, 3] [4, 5, 6]) MAG_ADDR 0x10 [7, 8, 9] 3 (boot\<lparr>calls := 9\<rparr>)) =
     (3, [1, 2, 3]) \<and>
   trace (snd (IIC_ReadReg (bench [1, 2, 3] [4, 5, 6]) MAG_ADDR 0x10 [7, 8, 9] 3
            (boot\<lparr>calls := 9\<rparr>))) =
     [Iic_send MAG_ADDR [0x10] 1 XIIC_REPEATED_START, Iic_recv MAG_ADDR 3 XIIC_STOP]"
  using IIC_ReadReg_two_phases [of silent_bus boot MAG_ADDR "0x10" "[7, 8, 9]" 3]
    IIC_ReadReg_two_phases [of "bench [1, 2, 3] [4, 5, 6]" "boot\<lparr>calls := 9\<rparr>" MAG_ADDR "0x10"
      "[7, 8, 9]" 3]
  by (simp add: silent_bus_def bench_def boot_def new_events_def overwrite_def
      IIC_ReadReg_def XIic_Send_def XIic_Recv_def emit_def prod_eq_iff)

section \<open>Initialisation\<close>

subsection \<open>A failed bus initialisation\<close>

text \<open>
  Claim C1, as the spec has it: after a failed \<^verbatim>\<open>XIic_Initialize\<close> the failure is logged and
  the program never runs \<^verbatim>\<open>read_mpu9250\<close>, \<^verbatim>\<open>read_magnetometer\<close> or the cadence sleep. The
  code does not do that. \<^verbatim>\<open>init_mpu9250\<close> returns \<^verbatim>\<open>void\<close> and \<^verbatim>\<open>main\<close> enters its loop
  whatever happened: in the world \<open>no_controller\<close> the first cycle follows the error
  message, with the burst-read address send, the status-read address send and the sleep of
  1000000 microseconds.
\<close>

theorem failed_init_still_enters_loop:
  "init_status no_controller \<noteq> XST_SUCCESS \<and>
   trace (main no_controller (Suc 0)) =
     [Init_platform, Print (''Iniciando MPU9250...'' @ [LF, CR]),
      Iic_initialize, Print (''Error inicializando IIC'' @ [CR, LF]),
      Iic_send MPU_ADDR [0x3B] 1 XIIC_REPEATED_START,
      Print (''Error leyendo datos del MPU'' @ [CR, LF]),
      Iic_send MAG_ADDR [0x02] 1 XIIC_REPEATED_START,
      Usleep 1000000]"
  by (simp add: main_def init_mpu9250_def cycle_def read_mpu9250_def read_magnetometer_def
      IIC_ReadReg_def XIic_Send_def uninit_def print_def usleep_def emit_def boot_def
      no_controller_def XST_SUCCESS_def Let_def)

text \<open>
  Claim C1, amended. If \<^verbatim>\<open>XIic_Initialize\<close> does not return \<^verbatim>\<open>XST_SUCCESS\<close>, then
  \<^verbatim>\<open>init_mpu9250\<close> logs the failure and returns at once: no \<^verbatim>\<open>XIic_Start\<close>, no register
  transfer, no pause, and \<^verbatim>\<open>ASA\<close> is left as it was. \<^verbatim>\<open>main\<close> does not look at the
  outcome: the loop is entered all the same, and every cycle runs \<^verbatim>\<open>read_mpu9250\<close>,
  \<^verbatim>\<open>read_magnetometer\<close> and the cadence sleep, so that its events begin with the burst-read
  address send, contain the status-read address send and end with the sleep.
\<close>

theorem init_failure_logged_loop_runs:
  assumes "init_status w \<noteq> XST_SUCCESS"
  shows "init_mpu9250 w s = print (''Error inicializando IIC'' @ [CR, LF]) (emit Iic_initialize s) \<and>
         new_events s (init_mpu9250 w s) =
           [Iic_initialize, Print (''Error inicializando IIC'' @ [CR, LF])] \<and>
         ASA (init_mpu9250 w s) = ASA s \<and>
         main w (Suc n) = usleep 1000000 (read_magnetometer w (read_mpu9250 w (main w n))) \<and>
         (\<exists>es1 es2. new_events (main w n) (main w (Suc n)) =
            Iic_send MPU_ADDR [0x3B] 1 XIIC_REPEATED_START # es1 @
            Iic_send MAG_ADDR [0x02] 1 XIIC_REPEATED_START # es2 @ [Usleep 1000000])"
proof -
  have init: "init_mpu9250 w s =
      print (''Error inicializando IIC'' @ [CR, LF]) (emit Iic_initialize s)"
    using assms by (simp add: init_mpu9250_def Let_def)
  have step: "main w (Suc n) = cycle w (main w n)"
    by (rule main_Suc)
  obtain es1 es2 where "trace (cycle w (main w n)) =
      trace (main w n) @ Iic_send MPU_ADDR [0x3B] 1 XIIC_REPEATED_START # es1 @
        Iic_send MAG_ADDR [0x02] 1 XIIC_REPEATED_START # es2 @ [Usleep 1000000]"
    using cycle_trace by blast
  then have "new_events (main w n) (main w (Suc n)) =
      Iic_send MPU_ADDR [0x3B] 1 XIIC_REPEATED_START # es1 @
        Iic_send MAG_ADDR [0x02] 1 XIIC_REPEATED_START # es2 @ [Usleep 1000000]"
    by (simp add: step)
  then show ?thesis
    by (simp add: init step cycle_def print_simps emit_simps) blast
qed

theorem init_failure_logged_loop_runs_witness:
  "init_status no_controller \<noteq> XST_SUCCESS \<and>
   trace (init_mpu9250 no_controller boot) =
     [Iic_initialize, Print (''Error inicializando IIC'' @ [CR, LF])] \<and>
   main no_controller (Suc 2) =
     usleep 1000000 (read_magnetometer no_controller (read_mpu9250 no_controller
       (main no_controller 2)))"
  using init_failure_logged_loop_runs [of no_controller boot 2]
  by (simp add: no_controller_def XST_SUCCESS_def boot_def print_simps emit_simps)

subsection \<open>The configuration block\<close>

text \<open>
  Claim C9, as the spec has it: the configuration step writes exactly the four registers
  \<^verbatim>\<open>0x1A\<close>, \<^verbatim>\<open>0x1B\<close>, \<^verbatim>\<open>0x1C\<close> and \<^verbatim>\<open>0x19\<close>. The block under the comment
  \<^verbatim>\<open>Configuracion MPU\<close> writes a fifth one, \<^verbatim>\<open>0x1D\<close> (the second accelerometer
  configuration register), between \<^verbatim>\<open>0x1C\<close> and \<^verbatim>\<open>0x19\<close>.
\<close>

theorem init_config_writes_0x1D:
  "trace (init_config silent_bus boot) =
     [Iic_send MPU_ADDR [0x1A, 0x03] 2 XIIC_STOP, Iic_send MPU_ADDR [0x1B, 0x18] 2 XIIC_STOP,
      Iic_send MPU_ADDR [0x1C, 0x10] 2 XIIC_STOP, Iic_send MPU_ADDR [0x1D, 0x03] 2 XIIC_STOP,
      Iic_send MPU_ADDR [0x19, 0x07] 2 XIIC_STOP] \<and>
   (0x1D :: u8) \<notin> {0x1A, 0x1B, 0x1C, 0x19}"
  by (simp add: init_config_simps boot_def)

text \<open>
  Claim C9, amended. The configuration block writes exactly five registers of the primary
  device, in this order and whatever the bus answers: \<^verbatim>\<open>0x1A\<close> (value \<^verbatim>\<open>0x03\<close>), \<^verbatim>\<open>0x1B\<close>
  (\<^verbatim>\<open>0x18\<close>), \<^verbatim>\<open>0x1C\<close> (\<^verbatim>\<open>0x10\<close>), \<^verbatim>\<open>0x1D\<close> (\<^verbatim>\<open>0x03\<close>) and \<^verbatim>\<open>0x19\<close> (\<^verbatim>\<open>0x07\<close>). Over the
  whole of a successful initialisation the register writes to the primary device are
  these five, after the wake-up write to \<^verbatim>\<open>0x6B\<close> and before the bypass write to \<^verbatim>\<open>0x37\<close>.
\<close>

theorem init_config_writes_five:
  "new_events s (init_config w s) =
     [Iic_send MPU_ADDR [0x1A, 0x03] 2 XIIC_STOP, Iic_send MPU_ADDR [0x1B, 0x18] 2 XIIC_STOP,
      Iic_send MPU_ADDR [0x1C, 0x10] 2 XIIC_STOP, Iic_send MPU_ADDR [0x1D, 0x03] 2 XIIC_STOP,
      Iic_send MPU_ADDR [0x19, 0x07] 2 XIIC_STOP] \<and>
   (init_status w = XST_SUCCESS \<longrightarrow>
      filter is_mpu_write (new_events s (init_mpu9250 w s)) =
        [Iic_send MPU_ADDR [0x6B, 0x00] 2 XIIC_STOP,
         Iic_send MPU_ADDR [0x1A, 0x03] 2 XIIC_STOP, Iic_send MPU_ADDR [0x1B, 0x18] 2 XIIC_STOP,
         Iic_send MPU_ADDR [0x1C, 0x10] 2 XIIC_STOP, Iic_send MPU_ADDR [0x1D, 0x03] 2 XIIC_STOP,
         Iic_send MPU_ADDR [0x19, 0x07] 2 XIIC_STOP,
         Iic_send MPU_ADDR [0x37, 0x02] 2 XIIC_STOP])"
proof -
  have mag: "MAG_ADDR \<noteq> MPU_ADDR"
    by (simp add: MAG_ADDR_def MPU_ADDR_def)
  have read: "filter is_mpu_write (trace (snd (IIC_ReadReg w MAG_ADDR r buf len t))) =
      filter is_mpu_write (trace t)" for r buf len t
    by (simp add: IIC_ReadReg_trace mag)
  have block: "new_events s (init_config w s) =
     [Iic_send MPU_ADDR [0x1A, 0x03] 2 XIIC_STOP, Iic_send MPU_ADDR [0x1B, 0x18] 2 XIIC_STOP,
      Iic_send MPU_ADDR [0x1C, 0x10] 2 XIIC_STOP, Iic_send MPU_ADDR [0x1D, 0x03] 2 XIIC_STOP,
      Iic_send MPU_ADDR [0x19, 0x07] 2 XIIC_STOP]"
    by (simp add: init_config_simps)
  have whole: "filter is_mpu_write (new_events s (init_mpu9250 w s)) =
        [Iic_send MPU_ADDR [0x6B, 0x00] 2 XIIC_STOP,
         Iic_send MPU_ADDR [0x1A, 0x03] 2 XIIC_STOP, Iic_send MPU_ADDR [0x1B, 0x18] 2 XIIC_STOP,
         Iic_send MPU_ADDR [0x1C, 0x10] 2 XIIC_STOP, Iic_send MPU_ADDR [0x1D, 0x03] 2 XIIC_STOP,
         Iic_send MPU_ADDR [0x19, 0x07] 2 XIIC_STOP,
         Iic_send MPU_ADDR [0x37, 0x02] 2 XIIC_STOP]"
    if ok: "init_status w = XST_SUCCESS"
  proof (rule filter_new_events [OF init_mpu9250_trace])
    show "filter is_mpu_write (trace (init_mpu9250 w s)) =
        filter is_mpu_write (trace s) @
        [Iic_send MPU_ADDR [0x6B, 0x00] 2 XIIC_STOP,
         Iic_send MPU_ADDR [0x1A, 0x03] 2 XIIC_STOP, Iic_send MPU_ADDR [0x1B, 0x18] 2 XIIC_STOP,
         Iic_send MPU_ADDR [0x1C, 0x10] 2 XIIC_STOP, Iic_send MPU_ADDR [0x1D, 0x03] 2 XIIC_STOP,
         Iic_send MPU_ADDR [0x19, 0x07] 2 XIIC_STOP,
         Iic_send MPU_ADDR [0x37, 0x02] 2 XIIC_STOP]"
      using ok
      by (simp add: init_config_simps init_mpu9250_def Let_def
          init_confirm_def init_mode_simps init_who_def init_fuse_rom_def read_asa_simps
          init_bypass_simps init_wake_simps split_def emit_simps usleep_simps
          IIC_WriteReg_simps read mag)
  qed
  show ?thesis
    using block whole by blast
qed

theorem init_config_writes_five_witness:
  "init_status (bench [1, 2, 3] [4, 5, 6]) = XST_SUCCESS \<and>
   filter is_mpu_write (trace (init_mpu9250 (bench [1, 2, 3] [4, 5, 6]) boot)) =
     [Iic_send MPU_ADDR [0x6B, 0x00] 2 XIIC_STOP,
      Iic_send MPU_ADDR [0x1A, 0x03] 2 XIIC_STOP, Iic_send MPU_ADDR [0x1B, 0x18] 2 XIIC_STOP,
      Iic_send MPU_ADDR [0x1C, 0x10] 2 XIIC_STOP, Iic_send MPU_ADDR [0x1D, 0x03] 2 XIIC_STOP,
      Iic_send MPU_ADDR [0x19, 0x07] 2 XIIC_STOP,
      Iic_send MPU_ADDR [0x37, 0x02] 2 XIIC_STOP]"
  using init_config_writes_five [of boot "bench [1, 2, 3] [4, 5, 6]"]
  by (simp add: bench_def XST_SUCCESS_def boot_def new_events_def)

subsection \<open>The sensitivity-adjustment bytes\<close>

text \<open>
  Claim C2, as the spec has it: the three \<^verbatim>\<open>ASA\<close> bytes are written once, by the fuse-ROM
  read, and nothing later changes them, the confirmation re-read included. The
  confirmation re-read is a second \<^verbatim>\<open>IIC_ReadReg\<close> into the same global array. In the world
  \<open>bench [1, 2, 3] [4, 5, 6]\<close> the array holds 1, 2, 3 when the fuse-ROM block is done and
  4, 5, 6 when initialisation returns.
\<close>

theorem confirmation_read_rewrites_ASA:
  "ASA (init_fuse_rom (bench [1, 2, 3] [4, 5, 6])
          (init_bypass (bench [1, 2, 3] [4, 5, 6])
            (init_config (bench [1, 2, 3] [4, 5, 6])
              (init_wake (bench [1, 2, 3] [4, 5, 6])
                (emit Iic_start (emit Iic_initialize boot)))))) = [1, 2, 3] \<and>
   init_mpu9250 (bench [1, 2, 3] [4, 5, 6]) boot =
     init_confirm (bench [1, 2, 3] [4, 5, 6])
       (init_mode (bench [1, 2, 3] [4, 5, 6])
         (init_who (bench [1, 2, 3] [4, 5, 6])
           (init_fuse_rom (bench [1, 2, 3] [4, 5, 6])
             (init_bypass (bench [1, 2, 3] [4, 5, 6])
               (init_config (bench [1, 2, 3] [4, 5, 6])
                 (init_wake (bench [1, 2, 3] [4, 5, 6])
                   (emit Iic_start (emit Iic_initialize boot)))))))) \<and>
   ASA (init_mpu9250 (bench [1, 2, 3] [4, 5, 6]) boot) = [4, 5, 6]"
proof -
  let ?w = "bench [1, 2, 3] [4, 5, 6]"
  have ok: "init_status ?w = XST_SUCCESS"
    by (simp add: bench_def XST_SUCCESS_def)
  have unfold: "init_mpu9250 ?w boot =
     init_confirm ?w (init_mode ?w (init_who ?w (init_fuse_rom ?w (init_bypass ?w
       (init_config ?w (init_wake ?w (emit Iic_start (emit Iic_initialize boot))))))))"
    using ok by (simp add: init_mpu9250_def Let_def)
  have fuse: "ASA (init_fuse_rom ?w (init_bypass ?w (init_config ?w (init_wake ?w
      (emit Iic_start (emit Iic_initialize boot)))))) = [1, 2, 3]"
    by (simp add: init_fuse_rom_ASA read_asa_simps IIC_ReadReg_def split_def Let_def
        XIic_Send_def XIic_Recv_def usleep_simps IIC_WriteReg_simps init_bypass_simps
        init_config_simps init_wake_simps emit_simps emit_def overwrite_def bench_def boot_def)
  have final: "ASA (init_mpu9250 ?w boot) = [4, 5, 6]"
    unfolding unfold
    by (simp add: init_confirm_ASA init_mode_simps init_who_def init_fuse_rom_def
        read_asa_simps IIC_ReadReg_def split_def Let_def
        XIic_Send_def XIic_Recv_def usleep_simps IIC_WriteReg_simps init_bypass_simps
        init_config_simps init_wake_simps emit_simps emit_def overwrite_def bench_def boot_def)
  show ?thesis
    using fuse unfold final by simp
qed

text \<open>
  Claim C2, amended. \<^verbatim>\<open>ASA\<close> is written by the read of register \<^verbatim>\<open>0x10\<close> in the fuse-ROM
  block and written again by the confirmation re-read, which stores what it receives in
  the same three bytes (and leaves them as they were when its address phase fails); no
  other step of initialisation changes them, and after initialisation no acquisition
  routine and no number of cycles changes them.
\<close>

theorem ASA_written_by_both_reads_only:
  "ASA (init_wake w s) = ASA s \<and> ASA (init_config w s) = ASA s \<and>
   ASA (init_bypass w s) = ASA s \<and> ASA (init_who w s) = ASA s \<and>
   ASA (init_mode w s) = ASA s \<and>
   (send_ret w (calls s) = 1 \<longrightarrow>
      ASA (read_asa w s) = overwrite (ASA s) (take 3 (snd (recv_ret w (Suc (calls s)))))) \<and>
   (send_ret w (calls s) \<noteq> 1 \<longrightarrow> ASA (read_asa w s) = ASA s) \<and>
   ASA (init_fuse_rom w s) =
     ASA (read_asa w (usleep 1000 (snd (IIC_WriteReg w MAG_ADDR 0x0A 0x0F
            (usleep 1000 (snd (IIC_WriteReg w MAG_ADDR 0x0A 0x00 s))))))) \<and>
   ASA (init_confirm w s) = ASA (read_asa w s) \<and>
   ASA (read_mpu9250 w s) = ASA s \<and> ASA (read_magnetometer w s) = ASA s \<and>
   ASA (acquisition_loop w n s) = ASA s \<and>
   ASA (main w n) = ASA (main w 0)"
  using init_fuse_rom_ASA [of w s]
  by (simp add: init_wake_simps init_config_simps init_bypass_simps init_mode_simps
      read_asa_simps IIC_ReadReg_fail IIC_ReadReg_recv init_confirm_ASA main_def)

theorem ASA_written_by_both_reads_only_witness:
  "send_ret (bench [1, 2, 3] [4, 5, 6]) (calls (boot\<lparr>calls := 15\<rparr>)) = 1 \<and>
   ASA (read_asa (bench [1, 2, 3] [4, 5, 6]) (boot\<lparr>calls := 15\<rparr>)) = [4, 5, 6] \<and>
   send_ret silent_bus (calls boot) \<noteq> 1 \<and>
   ASA (read_asa silent_bus boot) = [0, 0, 0]"
  using ASA_written_by_both_reads_only [of "bench [1, 2, 3] [4, 5, 6]" "boot\<lparr>calls := 15\<rparr>"]
    ASA_written_by_both_reads_only [of silent_bus boot]
  by (simp add: bench_def silent_bus_def boot_def overwrite_def)

subsection \<open>Transfers that fail\<close>

text \<open>
  Claim C3, as the spec has it: every send or receive that does not return the expected
  count, in any step of initialisation or acquisition read, is logged. The code tests the
  count of two reads only. In the world \<open>silent_bus\<close> the controller initialises and no
  transfer moves a byte: the first register write returns 0 instead of 2, as does every
  later one, the three reads of initialisation stop after the address phase, and the run
  of \<^verbatim>\<open>init_mpu9250\<close> prints no message at all.
\<close>

theorem failed_transfers_of_init_not_logged:
  "fst (IIC_WriteReg silent_bus MPU_ADDR 0x6B 0x00 (emit Iic_start (emit Iic_initialize boot)))
     \<noteq> 2 \<and>
   trace (init_mpu9250 silent_bus boot) =
     [Iic_initialize, Iic_start,
      Iic_send MPU_ADDR [0x6B, 0x00] 2 XIIC_STOP, Usleep 1000,
      Iic_send MPU_ADDR [0x1A, 0x03] 2 XIIC_STOP, Iic_send MPU_ADDR [0x1B, 0x18] 2 XIIC_STOP,
      Iic_send MPU_ADDR [0x1C, 0x10] 2 XIIC_STOP, Iic_send MPU_ADDR [0x1D, 0x03] 2 XIIC_STOP,
      Iic_send MPU_ADDR [0x19, 0x07] 2 XIIC_STOP,
      Iic_send MPU_ADDR [0x37, 0x02] 2 XIIC_STOP, Usleep 1000,
      Iic_send MAG_ADDR [0x0A, 0x00] 2 XIIC_STOP, Usleep 1000,
      Iic_send MAG_ADDR [0x0A, 0x0F] 2 XIIC_STOP, Usleep 1000,
      Iic_send MAG_ADDR [0x10] 1 XIIC_REPEATED_START,
      Iic_send MAG_ADDR [0x0A, 0x00] 2 XIIC_STOP, Usleep 1000,
      Iic_send MAG_ADDR [0x00] 1 XIIC_REPEATED_START,
      Xil_printf_who 0,
      Iic_send MAG_ADDR [0x0A, 0x16] 2 XIIC_STOP,
      Iic_send MAG_ADDR [0x10] 1 XIIC_REPEATED_START,
      Xil_printf_asa 0 0 0] \<and>
   filter is_print (trace (init_mpu9250 silent_bus boot)) = []"
proof -
  have tr: "trace (init_mpu9250 silent_bus boot) =
     [Iic_initialize, Iic_start,
      Iic_send MPU_ADDR [0x6B, 0x00] 2 XIIC_STOP, Usleep 1000,
      Iic_send MPU_ADDR [0x1A, 0x03] 2 XIIC_STOP, Iic_send MPU_ADDR [0x1B, 0x18] 2 XIIC_STOP,
      Iic_send MPU_ADDR [0x1C, 0x10] 2 XIIC_STOP, Iic_send MPU_ADDR [0x1D, 0x03] 2 XIIC_STOP,
      Iic_send MPU_ADDR [0x19, 0x07] 2 XIIC_STOP,
      Iic_send MPU_ADDR [0x37, 0x02] 2 XIIC_STOP, Usleep 1000,
      Iic_send MAG_ADDR [0x0A, 0x00] 2 XIIC_STOP, Usleep 1000,
      Iic_send MAG_ADDR [0x0A, 0x0F] 2 XIIC_STOP, Usleep 1000,
      Iic_send MAG_ADDR [0x10] 1 XIIC_REPEATED_START,
      Iic_send MAG_ADDR [0x0A, 0x00] 2 XIIC_STOP, Usleep 1000,
      Iic_send MAG_ADDR [0x00] 1 XIIC_REPEATED_START,
      Xil_printf_who 0,
      Iic_send MAG_ADDR [0x0A, 0x16] 2 XIIC_STOP,
      Iic_send MAG_ADDR [0x10] 1 XIIC_REPEATED_START,
      Xil_printf_asa 0 0 0]"
    by (simp add: init_mpu9250_def init_confirm_def init_mode_def init_who_def
        init_fuse_rom_def read_asa_def init_bypass_def init_config_def init_wake_def
        IIC_WriteReg_def IIC_ReadReg_def XIic_Send_def usleep_def emit_def Let_def
        silent_bus_def XST_SUCCESS_def boot_def)
  show ?thesis
    unfolding tr by (simp add: IIC_WriteReg_simps silent_bus_def)
qed

text \<open>
  Claim C3, amended. A failure is detected only where the code tests the byte count: the
  14-byte burst read of \<^verbatim>\<open>read_mpu9250\<close> and the 7-byte data read of \<^verbatim>\<open>read_magnetometer\<close>.
  When one of these does not return its count, the routine prints its error message after
  the one attempt (the address send and, if that moved one byte, the one receive) and
  returns without converting or printing a sample; the cycle goes on with the next
  routine and the sleep, and the loop with the next cycle. The transfers of
  initialisation are not tested: a successful \<^verbatim>\<open>XIic_Initialize\<close> is followed by no
  message whatever the transfers return.
\<close>

theorem tested_reads_log_and_skip:
  "(fst (fst (mpu_burst w s)) \<noteq> 14 \<longrightarrow>
      read_mpu9250 w s =
        print (''Error leyendo datos del MPU'' @ [CR, LF]) (snd (mpu_burst w s)) \<and>
      new_events s (read_mpu9250 w s) =
        Iic_send MPU_ADDR [0x3B] 1 XIIC_REPEATED_START #
        (if send_ret w (calls s) = 1 then [Iic_recv MPU_ADDR 14 XIIC_STOP] else []) @
        [Print (''Error leyendo datos del MPU'' @ [CR, LF])]) \<and>
   (bit (snd (fst (mag_status w s)) ! 0) 0 \<and>
    fst (fst (mag_data w (snd (mag_status w s)))) \<noteq> 7 \<longrightarrow>
      read_magnetometer w s =
        print (''Error leyendo datos del magnetometro'' @ [CR, LF])
          (snd (mag_data w (snd (mag_status w s)))) \<and>
      new_events (snd (mag_status w s)) (read_magnetometer w s) =
        Iic_send MAG_ADDR [0x03] 1 XIIC_REPEATED_START #
        (if send_ret w (calls (snd (mag_status w s))) = 1
         then [Iic_recv MAG_ADDR 7 XIIC_STOP] else []) @
        [Print (''Error leyendo datos del magnetometro'' @ [CR, LF])]) \<and>
   (init_status w = XST_SUCCESS \<longrightarrow>
      filter is_print (new_events s (init_mpu9250 w s)) = []) \<and>
   main w (Suc n) = usleep 1000000 (read_magnetometer w (read_mpu9250 w (main w n)))"
proof -
  have mpu: "new_events s (read_mpu9250 w s) =
        Iic_send MPU_ADDR [0x3B] 1 XIIC_REPEATED_START #
        (if send_ret w (calls s) = 1 then [Iic_recv MPU_ADDR 14 XIIC_STOP] else []) @
        [Print (''Error leyendo datos del MPU'' @ [CR, LF])]"
    if "fst (fst (mpu_burst w s)) \<noteq> 14"
    by (simp add: read_mpu9250_fail [OF that] print_simps IIC_ReadReg_trace)
  have mag: "new_events (snd (mag_status w s)) (read_magnetometer w s) =
        Iic_send MAG_ADDR [0x03] 1 XIIC_REPEATED_START #
        (if send_ret w (calls (snd (mag_status w s))) = 1
         then [Iic_recv MAG_ADDR 7 XIIC_STOP] else []) @
        [Print (''Error leyendo datos del magnetometro'' @ [CR, LF])]"
    if "bit (snd (fst (mag_status w s)) ! 0) 0"
      and "fst (fst (mag_data w (snd (mag_status w s)))) \<noteq> 7"
    by (simp add: read_magnetometer_fail [OF that(1) refl that(2)] print_simps
        IIC_ReadReg_trace)
  have init: "filter is_print (new_events s (init_mpu9250 w s)) = []"
    if "init_status w = XST_SUCCESS"
    by (rule filter_new_events [OF init_mpu9250_trace]) (simp add: init_mpu9250_no_print that)
  show ?thesis
    using mpu mag init
    by (simp add: read_mpu9250_fail read_magnetometer_fail main_Suc cycle_def)
qed

theorem tested_reads_log_and_skip_witness:
  "fst (fst (mpu_burst (bench [1, 2, 3] [4, 5, 6]) (boot\<lparr>calls := 23\<rparr>))) \<noteq> 14 \<and>
   new_events (boot\<lparr>calls := 23\<rparr>)
       (read_mpu9250 (bench [1, 2, 3] [4, 5, 6]) (boot\<lparr>calls := 23\<rparr>)) =
     [Iic_send MPU_ADDR [0x3B] 1 XIIC_REPEATED_START, Iic_recv MPU_ADDR 14 XIIC_STOP,
      Print (''Error leyendo datos del MPU'' @ [CR, LF])] \<and>
   bit (snd (fst (mag_status (bench [1, 2, 3] [4, 5, 6]) (boot\<lparr>calls := 25\<rparr>))) ! 0) 0 \<and>
   fst (fst (mag_data (bench [1, 2, 3] [4, 5, 6])
     (snd (mag_status (bench [1, 2, 3] [4, 5, 6]) (boot\<lparr>calls := 25\<rparr>))))) \<noteq> 7 \<and>
   new_events (snd (mag_status (bench [1, 2, 3] [4, 5, 6]) (boot\<lparr>calls := 25\<rparr>)))
       (read_magnetometer (bench [1, 2, 3] [4, 5, 6]) (boot\<lparr>calls := 25\<rparr>)) =
     [Iic_send MAG_ADDR [0x03] 1 XIIC_REPEATED_START, Iic_recv MAG_ADDR 7 XIIC_STOP,
      Print (''Error leyendo datos del magnetometro'' @ [CR, LF])] \<and>
   init_status silent_bus = XST_SUCCESS \<and>
   filter is_print (new_events boot (init_mpu9250 silent_bus boot)) = []"
proof -
  let ?w = "bench [1, 2, 3] [4, 5, 6]"
  have s23: "send_ret ?w 23 = 1" and s25: "send_ret ?w 25 = 1" and s27: "send_ret ?w 27 = 1"
    and r24: "recv_ret ?w 24 = (5, [0x10, 0x00, 0xF0, 0x00, 0x00])"
    and r26: "recv_ret ?w 26 = (1, [0x01])" and r28: "recv_ret ?w 28 = (3, [0x64, 0x00, 0xFE])"
    by (simp_all add: bench_def)
  define s1 where "s1 = snd (mag_status ?w (boot\<lparr>calls := 25\<rparr>))"
  have h1: "fst (fst (mpu_burst ?w (boot\<lparr>calls := 23\<rparr>))) \<noteq> 14"
    by (simp add: IIC_ReadReg_recv s23 r24)
  have c25: "calls s1 = 27"
    by (simp add: s1_def IIC_ReadReg_recv s25)
  have h2: "bit (snd (fst (mag_status ?w (boot\<lparr>calls := 25\<rparr>))) ! 0) 0"
    by (simp add: IIC_ReadReg_recv s25 r26 overwrite_def uninit_def)
  have h3: "fst (fst (mag_data ?w s1)) \<noteq> 7"
    by (simp add: IIC_ReadReg_recv c25 s27 r28)
  have h4: "init_status silent_bus = XST_SUCCESS"
    by (simp add: silent_bus_def XST_SUCCESS_def)
  have "new_events (boot\<lparr>calls := 23\<rparr>) (read_mpu9250 ?w (boot\<lparr>calls := 23\<rparr>)) =
      Iic_send MPU_ADDR [0x3B] 1 XIIC_REPEATED_START #
      (if send_ret ?w (calls (boot\<lparr>calls := 23\<rparr>)) = 1 then [Iic_recv MPU_ADDR 14 XIIC_STOP]
       else []) @ [Print (''Error leyendo datos del MPU'' @ [CR, LF])]"
    using tested_reads_log_and_skip [of ?w "boot\<lparr>calls := 23\<rparr>" 0] h1 by blast
  then have mpu: "new_events (boot\<lparr>calls := 23\<rparr>)
      (read_mpu9250 ?w (boot\<lparr>calls := 23\<rparr>)) =
     [Iic_send MPU_ADDR [0x3B] 1 XIIC_REPEATED_START, Iic_recv MPU_ADDR 14 XIIC_STOP,
      Print (''Error leyendo datos del MPU'' @ [CR, LF])]"
    by (simp add: s23)
  have "new_events s1 (read_magnetometer ?w (boot\<lparr>calls := 25\<rparr>)) =
      Iic_send MAG_ADDR [0x03] 1 XIIC_REPEATED_START #
      (if send_ret ?w (calls s1) = 1 then [Iic_recv MAG_ADDR 7 XIIC_STOP] else []) @
      [Print (''Error leyendo datos del magnetometro'' @ [CR, LF])]"
    using tested_reads_log_and_skip [of ?w "boot\<lparr>calls := 25\<rparr>" 0] h2 h3
    unfolding s1_def [symmetric] by blast
  then have mag: "new_events s1 (read_magnetometer ?w (boot\<lparr>calls := 25\<rparr>)) =
     [Iic_send MAG_ADDR [0x03] 1 XIIC_REPEATED_START, Iic_recv MAG_ADDR 7 XIIC_STOP,
      Print (''Error leyendo datos del magnetometro'' @ [CR, LF])]"
    by (simp add: c25 s27)
  have init: "filter is_print (new_events boot (init_mpu9250 silent_bus boot)) = []"
    using tested_reads_log_and_skip [of silent_bus boot 0] h4 by blast
  show ?thesis
    using mpu mag init h1 h2 h3 h4 unfolding s1_def by blast
qed

section \<open>The acquisition cycle\<close>

subsection \<open>The burst read of the primary device\<close>

text \<open>
  Claim C5. Whenever the 14-byte burst read from register \<^verbatim>\<open>0x3B\<close> returns 14,
  \<^verbatim>\<open>read_mpu9250\<close> converts and prints seven signed 16-bit values, accelerations X, Y, Z,
  temperature and angular rates X, Y, Z in this order, and each is the signed number whose
  most significant byte is the first byte of its pair and whose least significant byte is
  the second: pairs (0,1), (2,3), (4,5), (6,7), (8,9), (10,11) and (12,13) of the buffer.
\<close>

theorem burst_values_msb_first:
  assumes "fst (fst (mpu_burst w s)) = 14" and "data = snd (fst (mpu_burst w s))"
  shows "\<exists>ax ay az t gx gy gz.
           read_mpu9250 w s =
             emit (Printf_mpu (accel_g ax) (accel_g ay) (accel_g az) (temp_c t)
                     (gyro_dps gx) (gyro_dps gy) (gyro_dps gz)) (snd (mpu_burst w s)) \<and>
           sint ax = signed16 (data ! 0) (data ! 1) \<and>
           sint ay = signed16 (data ! 2) (data ! 3) \<and>
           sint az = signed16 (data ! 4) (data ! 5) \<and>
           sint t = signed16 (data ! 6) (data ! 7) \<and>
           sint gx = signed16 (data ! 8) (data ! 9) \<and>
           sint gy = signed16 (data ! 10) (data ! 11) \<and>
           sint gz = signed16 (data ! 12) (data ! 13) \<and>
           length data = 14"
proof -
  have len: "length data = 14"
    by (simp add: assms(2))
  show ?thesis
    apply (rule exI [of _ "join16 (data ! 0) (data ! 1)"])
    apply (rule exI [of _ "join16 (data ! 2) (data ! 3)"])
    apply (rule exI [of _ "join16 (data ! 4) (data ! 5)"])
    apply (rule exI [of _ "join16 (data ! 6) (data ! 7)"])
    apply (rule exI [of _ "join16 (data ! 8) (data ! 9)"])
    apply (rule exI [of _ "join16 (data ! 10) (data ! 11)"])
    apply (rule exI [of _ "join16 (data ! 12) (data ! 13)"])
    apply (simp only: sint_join16 len read_mpu9250_ok [OF assms])
    done
qed

theorem burst_values_msb_first_witness:
  "fst (fst (mpu_burst (bench [1, 2, 3] [4, 5, 6]) (boot\<lparr>calls := 17\<rparr>))) = 14 \<and>
   snd (fst (mpu_burst (bench [1, 2, 3] [4, 5, 6]) (boot\<lparr>calls := 17\<rparr>))) =
     [0x10, 0x00, 0xF0, 0x00, 0x00, 0x00, 0x00, 0x00, 0x06, 0x68, 0x00, 0x00, 0xFF, 0xFF] \<and>
   (\<exists>ax ay az t gx gy gz.
      read_mpu9250 (bench [1, 2, 3] [4, 5, 6]) (boot\<lparr>calls := 17\<rparr>) =
        emit (Printf_mpu (accel_g ax) (accel_g ay) (accel_g az) (temp_c t)
                (gyro_dps gx) (gyro_dps gy) (gyro_dps gz))
          (snd (mpu_burst (bench [1, 2, 3] [4, 5, 6]) (boot\<lparr>calls := 17\<rparr>))) \<and>
      sint ax = 4096 \<and> sint ay = - 4096 \<and> sint az = 0 \<and> sint t = 0 \<and>
      sint gx = 1640 \<and> sint gy = 0 \<and> sint gz = - 1)"
proof -
  let ?w = "bench [1, 2, 3] [4, 5, 6]"
  let ?s = "boot\<lparr>calls := 17\<rparr>"
  let ?data = "[0x10, 0x00, 0xF0, 0x00, 0x00, 0x00, 0x00, 0x00, 0x06, 0x68, 0x00, 0x00, 0xFF, 0xFF]
    :: u8 list"
  have s17: "send_ret ?w (calls ?s) = 1" and r18: "recv_ret ?w 18 = (14, ?data)"
    by (simp_all add: bench_def)
  have h1: "fst (fst (mpu_burst ?w ?s)) = 14"
    by (simp add: IIC_ReadReg_recv(1) [OF s17] r18)
  have h2: "?data = snd (fst (mpu_burst ?w ?s))"
    by (simp add: IIC_ReadReg_recv(2) [OF s17] r18 overwrite_def)
  have v: "signed16 0x10 0x00 = 4096" "signed16 0xF0 0x00 = - 4096" "signed16 0x00 0x00 = 0"
    "signed16 0x06 0x68 = 1640" "signed16 0xFF 0xFF = - 1"
    by (simp_all add: signed16_def)
  show ?thesis
    using burst_values_msb_first [OF h1 h2] h1 h2 [symmetric] by (simp add: v)
qed

subsection \<open>The magnetometer routine\<close>

text \<open>
  Claim C4. In every cycle \<^verbatim>\<open>read_magnetometer\<close> prints a converted line if and only if bit
  0 of the status byte is 1, the 7-byte data read returns 7 and bit 3 of the last data
  byte is 0. When bit 0 of the status byte is 0 the routine is over after the status
  read, and when the data read returned 7 with the overflow bit set it is over after the
  data read: no conversion, no output line and no message. The only message of the
  routine is the one for a data read that does not return 7.
\<close>

theorem magnetometer_line_iff:
  assumes "mag_status w s = ((status, st1), s1)" and "mag_data w s1 = ((n, data), s2)"
  shows "((\<exists>e \<in> set (new_events s (read_magnetometer w s)). is_mag_output e) \<longleftrightarrow>
            bit (st1 ! 0) 0 \<and> n = 7 \<and> \<not> bit (data ! 6) 3) \<and>
         (bit (st1 ! 0) 0 \<and> n = 7 \<and> \<not> bit (data ! 6) 3 \<longrightarrow>
            read_magnetometer w s =
              emit (Printf_mag (mag_uT (join16 (data ! 1) (data ! 0)) (mag_adj (ASA s ! 0)))
                      (mag_uT (join16 (data ! 3) (data ! 2)) (mag_adj (ASA s ! 1)))
                      (mag_uT (join16 (data ! 5) (data ! 4)) (mag_adj (ASA s ! 2)))) s2) \<and>
         (\<not> bit (st1 ! 0) 0 \<longrightarrow> read_magnetometer w s = s1) \<and>
         (bit (st1 ! 0) 0 \<and> n = 7 \<and> bit (data ! 6) 3 \<longrightarrow> read_magnetometer w s = s2) \<and>
         ((\<exists>e \<in> set (new_events s (read_magnetometer w s)). is_print e) \<longleftrightarrow>
            bit (st1 ! 0) 0 \<and> n \<noteq> 7)"
proof -
  have st: "snd (fst (mag_status w s)) = st1" "snd (mag_status w s) = s1"
    and da: "fst (fst (mag_data w s1)) = n" "snd (fst (mag_data w s1)) = data"
      "snd (mag_data w s1) = s2"
    using assms by simp_all
  obtain e1 where e1: "trace s1 = trace s @ e1" "\<forall>e \<in> set e1. \<not> is_mag_output e \<and> \<not> is_print e"
    using IIC_ReadReg_trace [of w MAG_ADDR "0x02" "uninit w s 1" 1 s] st(2) by auto
  obtain e2 where e2: "trace s2 = trace s1 @ e2" "\<forall>e \<in> set e2. \<not> is_mag_output e \<and> \<not> is_print e"
    using IIC_ReadReg_trace [of w MAG_ADDR "0x03" "uninit w s1 7" 7 s1] da(3) by auto
  have "ASA s1 = ASA s"
    unfolding st(2) [symmetric] by (rule IIC_ReadReg_ASA)
  moreover have "ASA s2 = ASA s1"
    unfolding da(3) [symmetric] by (rule IIC_ReadReg_ASA)
  ultimately have asa: "ASA s2 = ASA s"
    by simp
  consider (idle) "\<not> bit (st1 ! 0) 0"
    | (short) "bit (st1 ! 0) 0" "n \<noteq> 7"
    | (overflow) "bit (st1 ! 0) 0" "n = 7" "bit (data ! 6) 3"
    | (line) "bit (st1 ! 0) 0" "n = 7" "\<not> bit (data ! 6) 3"
    by blast
  then show ?thesis
  proof cases
    case idle
    then have "read_magnetometer w s = s1"
      using read_magnetometer_idle [of w s] st by simp
    then show ?thesis
      using idle e1 by auto
  next
    case short
    then have "read_magnetometer w s =
        print (''Error leyendo datos del magnetometro'' @ [CR, LF]) s2"
      using read_magnetometer_fail [of w s s1] st da by simp
    then show ?thesis
      using short e1 e2 by (auto simp: print_simps)
  next
    case overflow
    then have "read_magnetometer w s = s2"
      using read_magnetometer_overflow [of w s s1] st da by simp
    then show ?thesis
      using overflow e1 e2 by auto
  next
    case line
    then have "read_magnetometer w s =
        emit (Printf_mag (mag_uT (join16 (data ! 1) (data ! 0)) (mag_adj (ASA s ! 0)))
                (mag_uT (join16 (data ! 3) (data ! 2)) (mag_adj (ASA s ! 1)))
                (mag_uT (join16 (data ! 5) (data ! 4)) (mag_adj (ASA s ! 2)))) s2"
      using read_magnetometer_ok [of w s s1 data s2] st da asa by simp
    then show ?thesis
      using line e1 e2 by (auto simp: emit_simps)
  qed
qed

theorem magnetometer_line_iff_witness:
  "mag_status (bench [1, 2, 3] [4, 5, 6]) (boot\<lparr>calls := 19\<rparr>) =
     ((1, [0x01]),
      \<lparr>ASA = [0, 0, 0],
       trace = [Iic_send MAG_ADDR [0x02] 1 XIIC_REPEATED_START, Iic_recv MAG_ADDR 1 XIIC_STOP],
       calls = 21\<rparr>) \<and>
   fst (mag_data (bench [1, 2, 3] [4, 5, 6])
      \<lparr>ASA = [0, 0, 0],
       trace = [Iic_send MAG_ADDR [0x02] 1 XIIC_REPEATED_START, Iic_recv MAG_ADDR 1 XIIC_STOP],
       calls = 21\<rparr>) = (7, [0x64, 0x00, 0xFE, 0xFF, 0x00, 0x00, 0x10]) \<and>
   (\<exists>e \<in> set (new_events (boot\<lparr>calls := 19\<rparr>)
       (read_magnetometer (bench [1, 2, 3] [4, 5, 6]) (boot\<lparr>calls := 19\<rparr>))). is_mag_output e) \<and>
   mag_status silent_bus boot =
     ((0, [0x00]),
      \<lparr>ASA = [0, 0, 0], trace = [Iic_send MAG_ADDR [0x02] 1 XIIC_REPEATED_START], calls = 1\<rparr>) \<and>
   read_magnetometer silent_bus boot =
     \<lparr>ASA = [0, 0, 0], trace = [Iic_send MAG_ADDR [0x02] 1 XIIC_REPEATED_START], calls = 1\<rparr> \<and>
   fst (mag_status (bench [1, 2, 3] [4, 5, 6]) (boot\<lparr>calls := 30\<rparr>)) = (1, [0x01]) \<and>
   fst (mag_data (bench [1, 2, 3] [4, 5, 6])
          (snd (mag_status (bench [1, 2, 3] [4, 5, 6]) (boot\<lparr>calls := 30\<rparr>)))) =
     (7, [0xFF, 0x7F, 0xFF, 0x7F, 0xFF, 0x7F, 0x18]) \<and>
   new_events (boot\<lparr>calls := 30\<rparr>)
       (read_magnetometer (bench [1, 2, 3] [4, 5, 6]) (boot\<lparr>calls := 30\<rparr>)) =
     [Iic_send MAG_ADDR [0x02] 1 XIIC_REPEATED_START, Iic_recv MAG_ADDR 1 XIIC_STOP,
      Iic_send MAG_ADDR [0x03] 1 XIIC_REPEATED_START, Iic_recv MAG_ADDR 7 XIIC_STOP]"
proof -
  let ?w = "bench [1, 2, 3] [4, 5, 6]"
  let ?s1 = "\<lparr>ASA = [0, 0, 0],
       trace = [Iic_send MAG_ADDR [0x02] 1 XIIC_REPEATED_START, Iic_recv MAG_ADDR 1 XIIC_STOP],
       calls = 21\<rparr>"
  let ?s2 = "\<lparr>ASA = [0, 0, 0],
       trace = [Iic_send MAG_ADDR [0x02] 1 XIIC_REPEATED_START, Iic_recv MAG_ADDR 1 XIIC_STOP,
         Iic_send MAG_ADDR [0x03] 1 XIIC_REPEATED_START, Iic_recv MAG_ADDR 7 XIIC_STOP],
       calls = 23\<rparr>"
  let ?t1 = "\<lparr>ASA = [0, 0, 0],
       trace = [Iic_send MAG_ADDR [0x02] 1 XIIC_REPEATED_START, Iic_recv MAG_ADDR 1 XIIC_STOP],
       calls = 32\<rparr>"
  let ?t2 = "\<lparr>ASA = [0, 0, 0],
       trace = [Iic_send MAG_ADDR [0x02] 1 XIIC_REPEATED_START, Iic_recv MAG_ADDR 1 XIIC_STOP,
         Iic_send MAG_ADDR [0x03] 1 XIIC_REPEATED_START, Iic_recv MAG_ADDR 7 XIIC_STOP],
       calls = 34\<rparr>"
  let ?q1 = "\<lparr>ASA = [0, 0, 0], trace = [Iic_send MAG_ADDR [0x02] 1 XIIC_REPEATED_START],
       calls = 1\<rparr>"
  let ?q2 = "\<lparr>ASA = [0, 0, 0],
       trace = [Iic_send MAG_ADDR [0x02] 1 XIIC_REPEATED_START,
         Iic_send MAG_ADDR [0x03] 1 XIIC_REPEATED_START], calls = 2\<rparr>"
  have a1: "mag_status ?w (boot\<lparr>calls := 19\<rparr>) = ((1, [0x01]), ?s1)"
    by (simp add: IIC_ReadReg_def XIic_Send_def XIic_Recv_def emit_def bench_def boot_def
        overwrite_def uninit_def)
  have a2: "mag_data ?w ?s1 = ((7, [0x64, 0x00, 0xFE, 0xFF, 0x00, 0x00, 0x10]), ?s2)"
    by (simp add: IIC_ReadReg_def XIic_Send_def XIic_Recv_def emit_def bench_def
        overwrite_def uninit_def)
  have b1: "mag_status silent_bus boot = ((0, [0x00]), ?q1)"
    by (simp add: IIC_ReadReg_def XIic_Send_def emit_def silent_bus_def boot_def uninit_def)
  have b2: "mag_data silent_bus ?q1 = ((0, [0, 0, 0, 0, 0, 0, 0]), ?q2)"
    by (simp add: IIC_ReadReg_def XIic_Send_def emit_def silent_bus_def uninit_def
        upt_rec numeral_nat)
  have c1: "mag_status ?w (boot\<lparr>calls := 30\<rparr>) = ((1, [0x01]), ?t1)"
    by (simp add: IIC_ReadReg_def XIic_Send_def XIic_Recv_def emit_def bench_def boot_def
        overwrite_def uninit_def)
  have c2: "mag_data ?w ?t1 = ((7, [0xFF, 0x7F, 0xFF, 0x7F, 0xFF, 0x7F, 0x18]), ?t2)"
    by (simp add: IIC_ReadReg_def XIic_Send_def XIic_Recv_def emit_def bench_def
        overwrite_def uninit_def)
  have line: "\<exists>e \<in> set (new_events (boot\<lparr>calls := 19\<rparr>)
       (read_magnetometer ?w (boot\<lparr>calls := 19\<rparr>))). is_mag_output e"
    using magnetometer_line_iff [OF a1 a2, THEN conjunct1] by simp
  have idle: "read_magnetometer silent_bus boot = ?q1"
    using magnetometer_line_iff [OF b1 b2, THEN conjunct2, THEN conjunct2, THEN conjunct1]
    by simp
  have "read_magnetometer ?w (boot\<lparr>calls := 30\<rparr>) = ?t2"
    using magnetometer_line_iff [OF c1 c2, THEN conjunct2, THEN conjunct2, THEN conjunct2,
        THEN conjunct1]
    by simp
  then have over: "new_events (boot\<lparr>calls := 30\<rparr>) (read_magnetometer ?w (boot\<lparr>calls := 30\<rparr>)) =
     [Iic_send MAG_ADDR [0x02] 1 XIIC_REPEATED_START, Iic_recv MAG_ADDR 1 XIIC_STOP,
      Iic_send MAG_ADDR [0x03] 1 XIIC_REPEATED_START, Iic_recv MAG_ADDR 7 XIIC_STOP]"
    by (simp add: new_events_def boot_def)
  show ?thesis
    using line idle over by (simp only: a1 a2 b1 c1 c2 fst_conv snd_conv simp_thms)
qed

text \<open>
  Claim C10. \<^verbatim>\<open>read_magnetometer\<close> drops the value that the status-register read returns.
  Whatever that value is, failure included, the routine goes on to test bit 0 of the
  status buffer: the data read is attempted exactly when that bit is 1, and otherwise the
  routine is over; the status read itself prints nothing. When the address phase of the
  status read fails, the buffer is the uninitialised \<^verbatim>\<open>st1\<close>, so the bit tested is
  whatever the stack held. Changing only the value returned by the receive, or replacing
  one failure status of the address phase by another, changes nothing in what the
  routine does.
\<close>

theorem status_read_return_ignored:
  "((Iic_send MAG_ADDR [0x03] 1 XIIC_REPEATED_START
       \<in> set (new_events s (read_magnetometer w s))) \<longleftrightarrow>
     bit (snd (fst (mag_status w s)) ! 0) 0) \<and>
   (\<not> bit (snd (fst (mag_status w s)) ! 0) 0 \<longrightarrow>
      read_magnetometer w s = snd (mag_status w s)) \<and>
   filter is_print (new_events s (snd (mag_status w s))) = [] \<and>
   (send_ret w (calls s) \<noteq> 1 \<longrightarrow>
      fst (fst (mag_status w s)) = send_ret w (calls s) \<and>
      snd (fst (mag_status w s)) = [stack_junk w (calls s) 0] \<and>
      (\<forall>r. r \<noteq> 1 \<longrightarrow>
         read_magnetometer (w\<lparr>send_ret := (send_ret w)(calls s := r)\<rparr>) s =
         read_magnetometer w s)) \<and>
   (send_ret w (calls s) = 1 \<longrightarrow>
      (\<forall>r. read_magnetometer
             (w\<lparr>recv_ret := (recv_ret w)(Suc (calls s) := (r, snd (recv_ret w (Suc (calls s)))))\<rparr>)
             s =
           read_magnetometer w s))"
proof -
  have sent: "(Iic_send MAG_ADDR [0x03] 1 XIIC_REPEATED_START
       \<in> set (new_events s (read_magnetometer w s))) \<longleftrightarrow>
     bit (snd (fst (mag_status w s)) ! 0) 0"
    by (simp add: read_magnetometer_def split_def Let_def new_events_def IIC_ReadReg_trace
        print_simps emit_simps)
  have quiet: "filter is_print (new_events s (snd (mag_status w s))) = []"
    by (simp add: new_events_def IIC_ReadReg_trace)
  have junk: "snd (fst (mag_status w s)) = [stack_junk w (calls s) 0]"
    if "send_ret w (calls s) \<noteq> 1"
    using that by (simp add: IIC_ReadReg_fail uninit_def)
  have other_failure: "read_magnetometer (w\<lparr>send_ret := (send_ret w)(calls s := r)\<rparr>) s =
      read_magnetometer w s"
    if "send_ret w (calls s) \<noteq> 1" "r \<noteq> 1" for r
    using that
    by (simp add: read_magnetometer_def IIC_ReadReg_def XIic_Send_def XIic_Recv_def
        uninit_def emit_def print_def split_def Let_def)
  have other_count: "read_magnetometer
      (w\<lparr>recv_ret := (recv_ret w)(Suc (calls s) := (r, snd (recv_ret w (Suc (calls s)))))\<rparr>) s =
      read_magnetometer w s"
    if "send_ret w (calls s) = 1" for r
    using that
    by (simp add: read_magnetometer_def IIC_ReadReg_def XIic_Send_def XIic_Recv_def
        uninit_def emit_def print_def split_def Let_def)
  show ?thesis
    using sent quiet junk other_failure other_count
    by (simp add: read_magnetometer_idle IIC_ReadReg_fail)
qed

theorem status_read_return_ignored_witness:
  "send_ret silent_bus (calls boot) \<noteq> 1 \<and>
   fst (mag_status silent_bus boot) = (0, [0x00]) \<and>
   Iic_send MAG_ADDR [0x03] 1 XIIC_REPEATED_START
     \<notin> set (new_events boot (read_magnetometer silent_bus boot)) \<and>
   send_ret (bench [1, 2, 3] [4, 5, 6]) (calls (boot\<lparr>calls := 40\<rparr>)) \<noteq> 1 \<and>
   fst (mag_status (bench [1, 2, 3] [4, 5, 6]) (boot\<lparr>calls := 40\<rparr>)) = (2, [0xAB]) \<and>
   Iic_send MAG_ADDR [0x03] 1 XIIC_REPEATED_START
     \<in> set (new_events (boot\<lparr>calls := 40\<rparr>)
         (read_magnetometer (bench [1, 2, 3] [4, 5, 6]) (boot\<lparr>calls := 40\<rparr>))) \<and>
   send_ret (bench [1, 2, 3] [4, 5, 6]) (calls (boot\<lparr>calls := 19\<rparr>)) = 1 \<and>
   read_magnetometer
       ((bench [1, 2, 3] [4, 5, 6])
          \<lparr>recv_ret := (recv_ret (bench [1, 2, 3] [4, 5, 6]))(20 := (0, [0x01]))\<rparr>)
       (boot\<lparr>calls := 19\<rparr>) =
     read_magnetometer (bench [1, 2, 3] [4, 5, 6]) (boot\<lparr>calls := 19\<rparr>)"
proof -
  let ?w = "bench [1, 2, 3] [4, 5, 6]"
  have f0: "send_ret silent_bus (calls boot) \<noteq> 1" and j0: "stack_junk silent_bus (calls boot) 0 = 0"
    and v0: "send_ret silent_bus (calls boot) = 0"
    by (simp_all add: silent_bus_def)
  have f40: "send_ret ?w (calls (boot\<lparr>calls := 40\<rparr>)) \<noteq> 1"
    and j40: "stack_junk ?w 40 0 = 0xAB"
    and v40: "send_ret ?w 40 = 2"
    by (simp_all add: bench_def)
  have s19: "send_ret ?w (calls (boot\<lparr>calls := 19\<rparr>)) = 1"
    and r20: "snd (recv_ret ?w (Suc (calls (boot\<lparr>calls := 19\<rparr>)))) = [0x01]"
    by (simp_all add: bench_def)
  note A = status_read_return_ignored [of boot silent_bus]
  note B = status_read_return_ignored [of "boot\<lparr>calls := 40\<rparr>" ?w]
  note C = status_read_return_ignored [of "boot\<lparr>calls := 19\<rparr>" ?w]
  have a: "fst (mag_status silent_bus boot) = (0, [0x00])"
    using A f0 by (simp add: prod_eq_iff j0 v0)
  have b: "fst (mag_status ?w (boot\<lparr>calls := 40\<rparr>)) = (2, [0xAB])"
    using B f40 by (simp add: prod_eq_iff j40 v40)
  have a2: "snd (fst (mag_status silent_bus boot)) = [0x00]"
    unfolding a by simp
  have b2: "snd (fst (mag_status ?w (boot\<lparr>calls := 40\<rparr>))) = [0xAB]"
    unfolding b by simp
  have a': "Iic_send MAG_ADDR [0x03] 1 XIIC_REPEATED_START
     \<notin> set (new_events boot (read_magnetometer silent_bus boot))"
    using A [THEN conjunct1, unfolded a2] by simp
  have b': "Iic_send MAG_ADDR [0x03] 1 XIIC_REPEATED_START
     \<in> set (new_events (boot\<lparr>calls := 40\<rparr>) (read_magnetometer ?w (boot\<lparr>calls := 40\<rparr>)))"
    using B [THEN conjunct1, unfolded b2] by simp
  have "\<forall>r. read_magnetometer
           (?w\<lparr>recv_ret := (recv_ret ?w)(Suc (calls (boot\<lparr>calls := 19\<rparr>)) :=
              (r, snd (recv_ret ?w (Suc (calls (boot\<lparr>calls := 19\<rparr>))))))\<rparr>)
           (boot\<lparr>calls := 19\<rparr>) =
         read_magnetometer ?w (boot\<lparr>calls := 19\<rparr>)"
    using C s19 by blast
  then have c: "read_magnetometer (?w\<lparr>recv_ret := (recv_ret ?w)(20 := (0, [0x01]))\<rparr>)
      (boot\<lparr>calls := 19\<rparr>) = read_magnetometer ?w (boot\<lparr>calls := 19\<rparr>)"
    unfolding r20 by (simp add: boot_def)
  show ?thesis
    using f0 f40 s19 a b a' b' c by blast
qed

section \<open>Physical units\<close>

text \<open>
  The conversions are computed in single precision, so a result is the value of the
  formula rounded after each operation. Acceleration is the one that is always exact:
  the divisor 4096 is a power of two.
\<close>

text \<open>
  Claim C6. For every signed 16-bit raw value: the acceleration printed is exactly
  raw / 4096; the temperature is raw / 340 + 36.53 and the angular rate raw / 16.4, each
  computed in single precision and therefore within \<open>2\<^sup>-\<^sup>1\<^sup>6\<close> and \<open>2\<^sup>-\<^sup>1\<^sup>3\<close> of the exact
  value of the formula. Raw acceleration 4096 gives exactly 1 and -4096 exactly -1; raw
  temperature 0 gives the single-precision number nearest to 36.53, which is printed as
  36.53; raw angular rate 1640 gives exactly 100.
\<close>

theorem physical_conversions:
  "accel_g raw = of_int (sint raw) / 4096 \<and>
   \<bar>temp_c raw - (of_int (sint raw) / 340 + 3653 / 100)\<bar> \<le> 1 / 2 ^ 16 \<and>
   \<bar>gyro_dps raw - of_int (sint raw) / (164 / 10)\<bar> \<le> 1 / 2 ^ 13 \<and>
   accel_g 4096 = 1 \<and> shown 3 (accel_g 4096) = 1000 \<and>
   accel_g (- 4096) = - 1 \<and> shown 3 (accel_g (- 4096)) = - 1000 \<and>
   temp_c 0 = f32_round (3653 / 100) \<and> \<bar>temp_c 0 - 3653 / 100\<bar> \<le> 1 / 2 ^ 19 \<and>
   shown 2 (temp_c 0) = 3653 \<and>
   gyro_dps 1640 = 100 \<and> shown 3 (gyro_dps 1640) = 100000"
proof -
  have "temp_c 0 = f32_round (3653 / 100)"
    unfolding conversion_examples lit_36_53_def [symmetric] literals_rounded ..
  moreover have "\<bar>temp_c 0 - 3653 / 100\<bar> \<le> 1 / 2 ^ 19"
    unfolding conversion_examples by simp
  ultimately show ?thesis
    using accel_g_exact [of raw] temp_c_error [of raw] gyro_dps_error [of raw]
      conversion_examples(1,2,4,5,6,7,8)
    by (simp only: simp_thms)
qed

text \<open>
  Claim C7. For every magnetometer sample that passes the checks (data ready, 7 bytes, no
  overflow), the three signed 16-bit values are assembled least significant byte first,
  from byte pairs (0,1), (2,3) and (4,5), and each is converted with the adjustment
  factor of its axis. The factor is exactly (ASA - 128) / 256 + 1, the product of raw
  value and factor is exact, and the final multiplication by the single-precision
  constant 0.15 leaves the result within \<open>2\<^sup>-\<^sup>1\<^sup>0\<close> microtesla of raw times factor times
  0.15. ASA byte 128 gives the factor exactly 1; raw value 100 with ASA 128 gives
  \<open>15 + 2\<^sup>-\<^sup>2\<^sup>0\<close>, the single-precision product of 100 and 0.15, printed as 15.00.
\<close>

theorem magnetometer_conversion:
  assumes "bit (snd (fst (mag_status w s)) ! 0) 0" and "s1 = snd (mag_status w s)"
    and "fst (fst (mag_data w s1)) = 7" and "data = snd (fst (mag_data w s1))"
    and "\<not> bit (data ! 6) 3"
  shows "(\<exists>mx my mz.
            read_magnetometer w s =
              emit (Printf_mag (mag_uT mx (mag_adj (ASA s ! 0))) (mag_uT my (mag_adj (ASA s ! 1)))
                      (mag_uT mz (mag_adj (ASA s ! 2)))) (snd (mag_data w s1)) \<and>
            sint mx = signed16 (data ! 1) (data ! 0) \<and>
            sint my = signed16 (data ! 3) (data ! 2) \<and>
            sint mz = signed16 (data ! 5) (data ! 4)) \<and>
         (\<forall>raw asa.
            mag_adj asa = (of_int (uint asa) - 128) / 256 + 1 \<and>
            f32_mul (f32_of_int (sint (raw :: i16))) (mag_adj asa) =
              of_int (sint raw) * ((of_int (uint asa) - 128) / 256 + 1) \<and>
            \<bar>mag_uT raw (mag_adj asa) -
               of_int (sint raw) * ((of_int (uint asa) - 128) / 256 + 1) * (15 / 100)\<bar>
              \<le> 1 / 2 ^ 10) \<and>
         mag_adj 128 = 1 \<and>
         mag_uT 100 (mag_adj 128) = 15 + 1 / 2 ^ 20 \<and>
         shown 2 (mag_uT 100 (mag_adj 128)) = 1500"
proof -
  have asa: "ASA (snd (mag_data w s1)) = ASA s"
    by (simp add: assms(2))
  have "read_magnetometer w s =
      emit (Printf_mag (mag_uT (join16 (data ! 1) (data ! 0)) (mag_adj (ASA s ! 0)))
              (mag_uT (join16 (data ! 3) (data ! 2)) (mag_adj (ASA s ! 1)))
              (mag_uT (join16 (data ! 5) (data ! 4)) (mag_adj (ASA s ! 2))))
        (snd (mag_data w s1))"
    using read_magnetometer_ok [OF assms(1,2,3,4,5) refl] unfolding asa .
  then have sample: "\<exists>mx my mz.
      read_magnetometer w s =
        emit (Printf_mag (mag_uT mx (mag_adj (ASA s ! 0))) (mag_uT my (mag_adj (ASA s ! 1)))
                (mag_uT mz (mag_adj (ASA s ! 2)))) (snd (mag_data w s1)) \<and>
      sint mx = signed16 (data ! 1) (data ! 0) \<and>
      sint my = signed16 (data ! 3) (data ! 2) \<and>
      sint mz = signed16 (data ! 5) (data ! 4)"
    using sint_join16 by blast
  show ?thesis
    using sample mag_adj_exact mag_product_exact mag_uT_error mag_examples
    by (simp only: simp_thms)
qed

theorem magnetometer_conversion_witness:
  "bit (snd (fst (mag_status (bench [1, 2, 3] [4, 5, 6])
      (boot\<lparr>ASA := [128, 128, 128], calls := 19\<rparr>))) ! 0) 0 \<and>
   fst (mag_data (bench [1, 2, 3] [4, 5, 6])
      (snd (mag_status (bench [1, 2, 3] [4, 5, 6])
         (boot\<lparr>ASA := [128, 128, 128], calls := 19\<rparr>)))) =
     (7, [0x64, 0x00, 0xFE, 0xFF, 0x00, 0x00, 0x10]) \<and>
   (\<exists>mx my mz.
      read_magnetometer (bench [1, 2, 3] [4, 5, 6]) (boot\<lparr>ASA := [128, 128, 128], calls := 19\<rparr>) =
        emit (Printf_mag (mag_uT mx (mag_adj 128)) (mag_uT my (mag_adj 128))
                (mag_uT mz (mag_adj 128)))
          (snd (mag_data (bench [1, 2, 3] [4, 5, 6])
             (snd (mag_status (bench [1, 2, 3] [4, 5, 6])
                (boot\<lparr>ASA := [128, 128, 128], calls := 19\<rparr>))))) \<and>
      sint mx = 100 \<and> sint my = - 2 \<and> sint mz = 0)"
proof -
  let ?w = "bench [1, 2, 3] [4, 5, 6]"
  let ?s = "boot\<lparr>ASA := [128, 128, 128], calls := 19\<rparr>"
  let ?data = "[0x64, 0x00, 0xFE, 0xFF, 0x00, 0x00, 0x10] :: u8 list"
  define s1 where "s1 = snd (mag_status ?w ?s)"
  have s19: "send_ret ?w (calls ?s) = 1" and r20: "recv_ret ?w 20 = (1, [0x01])"
    and s21: "send_ret ?w 21 = 1" and r22: "recv_ret ?w 22 = (7, ?data)"
    by (simp_all add: bench_def)
  have c1: "calls s1 = 21"
    unfolding s1_def by (simp add: IIC_ReadReg_recv(5) [OF s19])
  have s21': "send_ret ?w (calls s1) = 1"
    unfolding c1 by (rule s21)
  have h1: "bit (snd (fst (mag_status ?w ?s)) ! 0) 0"
    by (simp add: IIC_ReadReg_recv(2) [OF s19] r20 overwrite_def uninit_def)
  have h3: "fst (fst (mag_data ?w s1)) = 7"
    by (simp add: IIC_ReadReg_recv(1) [OF s21'] c1 r22)
  have h4: "?data = snd (fst (mag_data ?w s1))"
    by (simp add: IIC_ReadReg_recv(2) [OF s21'] c1 r22 overwrite_def)
  have h5: "\<not> bit (?data ! 6) 3"
    by simp
  have v: "signed16 0x00 0x64 = 100" "signed16 0xFF 0xFE = - 2" "signed16 0x00 0x00 = 0"
    by (simp_all add: signed16_def)
  have asa: "ASA ?s ! 0 = 128" "ASA ?s ! 1 = 128" "ASA ?s ! 2 = 128"
    by simp_all
  have "\<exists>mx my mz.
      read_magnetometer ?w ?s =
        emit (Printf_mag (mag_uT mx (mag_adj (ASA ?s ! 0))) (mag_uT my (mag_adj (ASA ?s ! 1)))
                (mag_uT mz (mag_adj (ASA ?s ! 2)))) (snd (mag_data ?w s1)) \<and>
      sint mx = signed16 (?data ! 1) (?data ! 0) \<and>
      sint my = signed16 (?data ! 3) (?data ! 2) \<and>
      sint mz = signed16 (?data ! 5) (?data ! 4)"
    using magnetometer_conversion [OF h1 s1_def h3 h4 h5] by blast
  then have "\<exists>mx my mz.
      read_magnetometer ?w ?s =
        emit (Printf_mag (mag_uT mx (mag_adj 128)) (mag_uT my (mag_adj 128))
                (mag_uT mz (mag_adj 128))) (snd (mag_data ?w s1)) \<and>
      sint mx = 100 \<and> sint my = - 2 \<and> sint mz = 0"
    unfolding asa by (simp add: v)
  moreover have "fst (mag_data ?w s1) = (7, ?data)"
    using h3 h4 by (simp add: prod_eq_iff)
  ultimately show ?thesis
    using h1 unfolding s1_def by blast
qed

end
